theory Spec2Isabelle
  imports Complex_Main
begin

section \<open>JavaScript numbers\<close>

text \<open>
  The balance service computes with JavaScript numbers (IEEE 754 binary64). A number is
  modelled by the rational it denotes, or by one of the three special values. Every
  arithmetic result is rounded to the nearest binary64 value (ties to even), subnormals and
  overflow to infinity included. The sign of zero is not kept: no operation of the service
  divides by a balance, and \<open>(-0).toString()\<close> is \<open>"0"\<close>.

  \<open>Number.prototype.toString\<close> and \<open>parseFloat\<close> are inverse to each other on every
  number, so a balance string is represented by the number it denotes.
\<close>

datatype jsnum = NaN | PInf | NInf | Fin rat

definition pow2 :: "int \<Rightarrow> rat" where
  "pow2 e = (if 0 \<le> e then 2 ^ nat e else 1 / 2 ^ nat (- e))"

function bitLength :: "int \<Rightarrow> nat" where
  "bitLength n = (if n \<le> 0 then 0 else Suc (bitLength (n div 2)))"
  by pat_completeness auto
termination
  by (relation "measure nat") auto

declare bitLength.simps [simp del]

definition binExponent :: "rat \<Rightarrow> int" where
  \<comment> \<open>for \<open>0 < q\<close>: the \<open>e\<close> with \<open>2 ^ e \<le> q < 2 ^ (e + 1)\<close>\<close>
  "binExponent q =
     (let (a, b) = quotient_of q;
          e0 = int (bitLength a) - int (bitLength b)
      in if q < pow2 e0 then e0 - 1 else e0)"

definition roundHalfEven :: "rat \<Rightarrow> int" where
  "roundHalfEven m =
     (let f = \<lfloor>m\<rfloor>; d = m - of_int f
      in if d < 1 / 2 then f else if 1 / 2 < d then f + 1 else if even f then f else f + 1)"

definition roundDouble :: "rat \<Rightarrow> jsnum" where
  "roundDouble q =
     (if q = 0 then Fin 0
      else let a = \<bar>q\<bar>;
               e = max (binExponent a) (- 1022);
               ulp = pow2 (e - 52);
               r = of_int (roundHalfEven (a / ulp)) * ulp
           in if pow2 1024 \<le> r then (if 0 < q then PInf else NInf)
              else Fin (if 0 < q then r else - r))"

definition jsDiv :: "jsnum \<Rightarrow> jsnum \<Rightarrow> jsnum" where
  \<comment> \<open>\<open>x / y\<close>; a zero divisor is taken as \<open>+0\<close>\<close>
  "jsDiv x y =
     (case (x, y) of
        (NaN, _) \<Rightarrow> NaN
      | (_, NaN) \<Rightarrow> NaN
      | (Fin a, Fin b) \<Rightarrow>
          (if b = 0 then (if a = 0 then NaN else if 0 < a then PInf else NInf)
           else roundDouble (a / b))
      | (Fin a, _) \<Rightarrow> Fin 0
      | (PInf, Fin b) \<Rightarrow> (if 0 \<le> b then PInf else NInf)
      | (NInf, Fin b) \<Rightarrow> (if 0 \<le> b then NInf else PInf)
      | (_, _) \<Rightarrow> NaN)"

definition jsMul :: "jsnum \<Rightarrow> jsnum \<Rightarrow> jsnum" where
  "jsMul x y =
     (case (x, y) of
        (NaN, _) \<Rightarrow> NaN
      | (_, NaN) \<Rightarrow> NaN
      | (Fin a, Fin b) \<Rightarrow> roundDouble (a * b)
      | (Fin a, PInf) \<Rightarrow> (if a = 0 then NaN else if 0 < a then PInf else NInf)
      | (Fin a, NInf) \<Rightarrow> (if a = 0 then NaN else if 0 < a then NInf else PInf)
      | (PInf, Fin b) \<Rightarrow> (if b = 0 then NaN else if 0 < b then PInf else NInf)
      | (NInf, Fin b) \<Rightarrow> (if b = 0 then NaN else if 0 < b then NInf else PInf)
      | (PInf, PInf) \<Rightarrow> PInf
      | (NInf, NInf) \<Rightarrow> PInf
      | (_, _) \<Rightarrow> NInf)"

definition truthyNum :: "jsnum \<Rightarrow> bool" where
  \<comment> \<open>a number is falsy exactly when it is zero or NaN\<close>
  "truthyNum x = (x \<noteq> NaN \<and> x \<noteq> Fin 0)"

definition gtZero :: "jsnum \<Rightarrow> bool" where
  \<comment> \<open>\<open>x > 0\<close>\<close>
  "gtZero x = (case x of Fin a \<Rightarrow> 0 < a | PInf \<Rightarrow> True | _ \<Rightarrow> False)"

definition jsonNumber :: "rat \<Rightarrow> jsnum" where
  \<comment> \<open>the number \<open>JSON.parse\<close> yields for a numeric literal of that value\<close>
  "jsonNumber q = roundDouble q"

definition pow10 :: "nat \<Rightarrow> jsnum" where
  \<comment> \<open>\<open>Math.pow(10, n)\<close> for \<open>n \<le> 22\<close>, where the power is a binary64 value and the
      result is exact; it is used with no other exponent\<close>
  "pow10 n = roundDouble (10 ^ n)"

subsection \<open>The decimal string of a number\<close>

text \<open>
  \<open>Number.prototype.toString\<close> writes a finite number with the fewest significant digits
  that read back as the same number, and among those the digits closest to it. The
  functions below give the value of that decimal; \<open>NaN\<close> and the infinities are written
  by their names.
\<close>

definition pow10z :: "int \<Rightarrow> rat" where
  "pow10z k = (if 0 \<le> k then 10 ^ nat k else 1 / 10 ^ nat (- k))"

primrec searchExponent :: "nat \<Rightarrow> rat \<Rightarrow> int \<Rightarrow> int" where
  "searchExponent 0 a m = m"
| "searchExponent (Suc fuel) a m =
     (if a < pow10z (m + 1) then m else searchExponent fuel a (m + 1))"

definition decExponent :: "rat \<Rightarrow> int" where
  \<comment> \<open>for \<open>0 < a\<close>: the \<open>m\<close> with \<open>10 ^ m \<le> a < 10 ^ (m + 1)\<close>, searched upwards from a
      lower estimate taken from the binary exponent\<close>
  "decExponent a = searchExponent 4 a ((binExponent a * 30103) div 100000 - 1)"

primrec shortestFrom :: "nat \<Rightarrow> nat \<Rightarrow> int \<Rightarrow> rat \<Rightarrow> rat" where
  \<comment> \<open>tries \<open>n\<close>, \<open>n + 1\<close>, ... significant digits: the two decimals of that many digits
      around \<open>a\<close>, of which one is taken if it reads back as \<open>a\<close>\<close>
  "shortestFrom 0 n m a = a"
| "shortestFrom (Suc fuel) n m a =
     (let scale = pow10z (m + 1 - int n);
          q = \<lfloor>a / scale\<rfloor>;
          lo = of_int q * scale;
          hi = lo + scale;
          okLo = (roundDouble lo = Fin a);
          okHi = (roundDouble hi = Fin a)
      in if okLo \<and> okHi then
           (if a - lo < hi - a then lo else if hi - a < a - lo then hi
            else if even q then lo else hi)
         else if okLo then lo
         else if okHi then hi
         else shortestFrom fuel (Suc n) m a)"

definition decimalOf :: "jsnum \<Rightarrow> jsnum" where
  \<comment> \<open>the value of the string \<open>x.toString()\<close>\<close>
  "decimalOf x =
     (case x of
        Fin a \<Rightarrow>
          if a = 0 then Fin 0
          else if 0 < a then Fin (shortestFrom 17 1 (decExponent a) a)
          else Fin (- shortestFrom 17 1 (decExponent (- a)) (- a))
      | _ \<Rightarrow> x)"

subsection \<open>parseInt\<close>

definition isWhiteSpace :: "char \<Rightarrow> bool" where
  "isWhiteSpace c = (c \<in> set [CHR 0x09, CHR 0x0A, CHR 0x0B, CHR 0x0C, CHR 0x0D, CHR '' ''])"

definition digitValue :: "char \<Rightarrow> int option" where
  "digitValue c =
     (let n = of_char c :: int
      in if 48 \<le> n \<and> n \<le> 57 then Some (n - 48)
         else if 97 \<le> n \<and> n \<le> 122 then Some (n - 87)
         else if 65 \<le> n \<and> n \<le> 90 then Some (n - 55)
         else None)"

definition isDigitIn :: "int \<Rightarrow> char \<Rightarrow> bool" where
  "isDigitIn radix c = (case digitValue c of Some d \<Rightarrow> d < radix | None \<Rightarrow> False)"

definition digitsValue :: "int \<Rightarrow> string \<Rightarrow> int" where
  "digitsValue radix ds = foldl (\<lambda>acc c. acc * radix + (case digitValue c of Some d \<Rightarrow> d | None \<Rightarrow> 0)) 0 ds"

definition parseInt :: "string \<Rightarrow> jsnum" where
  \<comment> \<open>\<open>parseInt(s)\<close> with no radix argument\<close>
  "parseInt s =
     (let s1 = dropWhile isWhiteSpace s;
          neg = (s1 \<noteq> [] \<and> hd s1 = CHR ''-'');
          s2 = (if s1 \<noteq> [] \<and> (hd s1 = CHR ''-'' \<or> hd s1 = CHR ''+'') then tl s1 else s1);
          hex = (take 2 s2 = ''0x'' \<or> take 2 s2 = ''0X'');
          radix = (if hex then 16 else 10);
          s3 = (if hex then drop 2 s2 else s2);
          ds = takeWhile (isDigitIn radix) s3
      in if ds = [] then NaN
         else roundDouble ((if neg then - 1 else 1) * of_int (digitsValue radix ds)))"

section \<open>Errors and the upstream HTTP services\<close>

datatype error =
    WalletNotFound                \<comment> \<open>\<open>Error('Wallet not found')\<close>\<close>
  | UnsupportedNetwork string     \<comment> \<open>\<open>Error(`Unsupported network: ${network}`)\<close>\<close>
  | CoinGeckoApiError nat         \<comment> \<open>\<open>Error(`CoinGecko API error: ${status}`)\<close>\<close>
  | FetchFailed                   \<comment> \<open>\<open>fetch\<close> rejects: the request did not complete\<close>
  | JsonParseError                \<comment> \<open>\<open>response.json()\<close> rejects: the body is not JSON\<close>
  | PersistenceFailure            \<comment> \<open>the database rejects a statement\<close>

text \<open>
  A call of \<open>fetch\<close> either rejects or resolves to a response with a status code and a
  body; \<open>response.json()\<close> either rejects or yields the parsed data. The parsed data is
  typed by the reply format of each service; a field that may be absent is an option. A
  string field that is absent or empty is falsy. The upstream state is a function from the
  url requested to the outcome: during one run a service answers a url the same way each
  time it is asked.
\<close>

datatype 'd body = BadJson | Json 'd

datatype 'd response = NetworkError | Response nat "'d body"

definition ok :: "nat \<Rightarrow> bool" where
  \<comment> \<open>\<open>response.ok\<close>\<close>
  "ok status = (200 \<le> status \<and> status \<le> 299)"

record explorerData =
  status :: "string option"
  result :: "string option"

record tronAccount =
  acc_balance :: "rat option"

record tronAccountData =
  acc_data :: "tronAccount list option"

record tronToken =
  token_address :: string
  token_balance :: string
  token_decimal :: nat

record tronTokenData =
  tok_data :: "tronToken list option"

record quote =
  usd :: "rat option"

type_synonym priceData = "string \<rightharpoonup> quote"

text \<open>
  What a run depends on and the code does not fix: the four upstream services, and the
  value the engine gives to \<open>Math.pow(10, n)\<close> for \<open>n > 22\<close>, where the power is not a
  binary64 value and the language leaves the result to the implementation.
\<close>

record world =
  explorer :: "string \<Rightarrow> explorerData response"
  tronAccounts :: "string \<Rightarrow> tronAccountData response"
  tronTokens :: "string \<Rightarrow> tronTokenData response"
  coingecko :: "string \<Rightarrow> priceData response"
  enginePow10 :: "nat \<Rightarrow> jsnum"

definition mathPow10 :: "world \<Rightarrow> nat \<Rightarrow> jsnum" where
  \<comment> \<open>\<open>Math.pow(10, n)\<close> for any natural \<open>n\<close>\<close>
  "mathPow10 w n = (if n \<le> 22 then pow10 n else enginePow10 w n)"

section \<open>Configuration tables\<close>

definition API_ENDPOINTS :: "(string \<times> (string \<times> string) list) list" where
  "API_ENDPOINTS =
     [(''ethereum'', [(''etherscan'', ''https://api.etherscan.io/api''),
                      (''moralis'', ''https://deep-index.moralis.io/api/v2'')]),
      (''bsc'', [(''bscscan'', ''https://api.bscscan.com/api''),
                 (''moralis'', ''https://deep-index.moralis.io/api/v2'')]),
      (''polygon'', [(''polygonscan'', ''https://api.polygonscan.com/api''),
                     (''moralis'', ''https://deep-index.moralis.io/api/v2'')]),
      (''tron'', [(''trongrid'', ''https://api.trongrid.io'')])]"

definition TOKEN_CONTRACTS :: "(string \<times> (string \<times> string) list) list" where
  "TOKEN_CONTRACTS =
     [(''ethereum'', [(''USDT'', ''0xdAC17F958D2ee523a2206206994597C13D831ec7''),
                      (''USDC'', ''0xA0b86a33E6417C5BB1d1e91a064B1B8a9166B1b8''),
                      (''BNB'', ''0xB8c77482e45F1F44dE1745F52C74426C631bDD52'')]),
      (''bsc'', [(''USDT'', ''0x55d398326f99059fF775485246999027B3197955''),
                 (''USDC'', ''0x8AC76a51cc950d9822D68b83fE1Ad97B32Cd580d''),
                 (''ETH'', ''0x2170Ed0880ac9A755fd29B2688956BD959F933F8'')]),
      (''polygon'', [(''USDT'', ''0xc2132D05D31c914a87C6611C10748AEb04B58e8F''),
                     (''USDC'', ''0x2791Bca1f2de4661ED88A30C99A7a9449Aa84174''),
                     (''ETH'', ''0x7ceB23fD6bC0adD59E62ac25578270cFf1b9f619'')])]"

definition COINGECKO_API :: string where
  "COINGECKO_API = ''https://api.coingecko.com/api/v3''"

definition endpointUrl :: "(string \<times> string) list \<Rightarrow> string \<Rightarrow> string" where
  \<comment> \<open>\<open>${endpoints.key}\<close> inside a template literal\<close>
  "endpointUrl endpoints key =
     (case map_of endpoints key of Some u \<Rightarrow> u | None \<Rightarrow> ''undefined'')"

section \<open>Price oracle: getTokenPrices\<close>

fun join :: "string \<Rightarrow> string list \<Rightarrow> string" where
  "join sep [] = []"
| "join sep [x] = x"
| "join sep (x # y # ys) = x @ sep @ join sep (y # ys)"

definition symbolMapping :: "(string \<times> string) list" where
  "symbolMapping =
     [(''BTC'', ''bitcoin''), (''ETH'', ''ethereum''), (''BNB'', ''binancecoin''),
      (''USDT'', ''tether''), (''USDC'', ''usd-coin''), (''MATIC'', ''matic-network''),
      (''TRX'', ''tron'')]"

definition priceQueryUrl :: "string list \<Rightarrow> string" where
  "priceQueryUrl symbols =
     COINGECKO_API @ ''/simple/price?ids='' @ join '','' symbols @ ''&vs_currencies=usd''"

definition quotedPrice :: "priceData \<Rightarrow> string \<Rightarrow> jsnum option" where
  \<comment> \<open>\<open>data[id] && data[id].usd\<close>: the price when the test is truthy\<close>
  "quotedPrice data ident =
     (case data ident of
        None \<Rightarrow> None
      | Some q \<Rightarrow>
          (case usd q of
             None \<Rightarrow> None
           | Some v \<Rightarrow> if truthyNum (jsonNumber v) then Some (jsonNumber v) else None))"

definition collectPrices :: "priceData \<Rightarrow> (string \<rightharpoonup> jsnum)" where
  \<comment> \<open>the loop over \<open>Object.entries(symbolMapping)\<close>\<close>
  "collectPrices data =
     foldl (\<lambda>prices (symbol, ident).
              case quotedPrice data ident of
                Some p \<Rightarrow> prices(symbol \<mapsto> p)
              | None \<Rightarrow> prices)
           Map.empty symbolMapping"

definition getTokenPricesBody :: "world \<Rightarrow> string list \<Rightarrow> error + (string \<rightharpoonup> jsnum)" where
  \<comment> \<open>the \<open>try\<close> block\<close>
  "getTokenPricesBody w symbols =
     (case coingecko w (priceQueryUrl symbols) of
        NetworkError \<Rightarrow> Inl FetchFailed
      | Response st b \<Rightarrow>
          if \<not> ok st then Inl (CoinGeckoApiError st)
          else (case b of
                  BadJson \<Rightarrow> Inl JsonParseError
                | Json data \<Rightarrow> Inr (collectPrices data)))"

definition getTokenPrices :: "world \<Rightarrow> string list \<Rightarrow> error + (string \<rightharpoonup> jsnum)" where
  "getTokenPrices w symbols =
     (case getTokenPricesBody w symbols of
        Inl e \<Rightarrow> Inr Map.empty
      | Inr prices \<Rightarrow> Inr prices)"

section \<open>Chain balance fetchers\<close>

text \<open>
  A raw balance as the fetchers build it. The \<open>balance\<close> string is represented by the
  number whose \<open>toString()\<close> it is; \<open>parseFloat\<close> of the string gives that number
  back, and \<open>decimalOf\<close> gives the decimal the string spells out.
\<close>

record RawBalance =
  rb_tokenSymbol :: string
  rb_balance :: jsnum
  rb_tokenAddress :: "string option"

subsection \<open>fetchNativeBalance\<close>

definition nativeRequest :: "(string \<times> string) list \<Rightarrow> string \<Rightarrow> string \<Rightarrow> (string \<times> string) option" where
  \<comment> \<open>the \<open>switch (network)\<close>: the url and the native symbol, or the \<open>default\<close> branch\<close>
  "nativeRequest endpoints network address =
     (if network = ''ethereum'' then
        Some (endpointUrl endpoints ''etherscan'' @ ''?module=account&action=balance&address=''
                @ address @ ''&tag=latest'', ''ETH'')
      else if network = ''bsc'' then
        Some (endpointUrl endpoints ''bscscan'' @ ''?module=account&action=balance&address=''
                @ address @ ''&tag=latest'', ''BNB'')
      else if network = ''polygon'' then
        Some (endpointUrl endpoints ''polygonscan'' @ ''?module=account&action=balance&address=''
                @ address @ ''&tag=latest'', ''MATIC'')
      else None)"

definition fetchNativeBalanceBody ::
  "world \<Rightarrow> (string \<times> string) list \<Rightarrow> string \<Rightarrow> string \<Rightarrow> error + RawBalance option" where
  \<comment> \<open>the \<open>try\<close> block; \<open>Inr None\<close> is both \<open>return null\<close> and falling out of the block\<close>
  "fetchNativeBalanceBody w endpoints address network =
     (case nativeRequest endpoints network address of
        None \<Rightarrow> Inr None
      | Some (apiUrl, nativeSymbol) \<Rightarrow>
          (case explorer w apiUrl of
             NetworkError \<Rightarrow> Inl FetchFailed
           | Response st b \<Rightarrow>
               if \<not> ok st then Inr None
               else (case b of
                       BadJson \<Rightarrow> Inl JsonParseError
                     | Json data \<Rightarrow>
                         (case result data of
                            None \<Rightarrow> Inr None
                          | Some r \<Rightarrow>
                              if status data = Some ''1'' \<and> r \<noteq> [] then
                                Inr (Some \<lparr>rb_tokenSymbol = nativeSymbol,
                                           rb_balance = jsDiv (parseInt r) (pow10 18),
                                           rb_tokenAddress = None\<rparr>)
                              else Inr None))))"

definition fetchNativeBalance :: "world \<Rightarrow> string \<Rightarrow> string \<Rightarrow> error + RawBalance option" where
  "fetchNativeBalance w address network =
     (case map_of API_ENDPOINTS network of
        None \<Rightarrow> Inr None
      | Some endpoints \<Rightarrow>
          (case fetchNativeBalanceBody w endpoints address network of
             Inl e \<Rightarrow> Inr None
           | Inr r \<Rightarrow> Inr r))"

subsection \<open>fetchTokenBalances\<close>

definition tokenRequest :: "(string \<times> string) list \<Rightarrow> string \<Rightarrow> string \<Rightarrow> string \<Rightarrow> string option" where
  \<comment> \<open>the \<open>switch (network)\<close> inside the loop; \<open>None\<close> is the \<open>default: continue\<close>\<close>
  "tokenRequest endpoints network contractAddress address =
     (if network = ''ethereum'' then
        Some (endpointUrl endpoints ''etherscan''
                @ ''?module=account&action=tokenbalance&contractaddress='' @ contractAddress
                @ ''&address='' @ address @ ''&tag=latest'')
      else if network = ''bsc'' then
        Some (endpointUrl endpoints ''bscscan''
                @ ''?module=account&action=tokenbalance&contractaddress='' @ contractAddress
                @ ''&address='' @ address @ ''&tag=latest'')
      else if network = ''polygon'' then
        Some (endpointUrl endpoints ''polygonscan''
                @ ''?module=account&action=tokenbalance&contractaddress='' @ contractAddress
                @ ''&address='' @ address @ ''&tag=latest'')
      else None)"

definition tokenDecimals :: "string \<Rightarrow> nat" where
  "tokenDecimals symbol = (if symbol = ''USDT'' \<or> symbol = ''USDC'' then 6 else 18)"

fun tokenLoop ::
  "world \<Rightarrow> (string \<times> string) list \<Rightarrow> string \<Rightarrow> string \<Rightarrow> (string \<times> string) list
     \<Rightarrow> RawBalance list \<Rightarrow> RawBalance list \<times> error option" where
  \<comment> \<open>the \<open>for\<close> loop over the token table: the list built so far, and the exception
      that ended the loop, if any\<close>
  "tokenLoop w endpoints address network [] balances = (balances, None)"
| "tokenLoop w endpoints address network ((symbol, contractAddress) # rest) balances =
     (case tokenRequest endpoints network contractAddress address of
        None \<Rightarrow> tokenLoop w endpoints address network rest balances
      | Some apiUrl \<Rightarrow>
          (case explorer w apiUrl of
             NetworkError \<Rightarrow> (balances, Some FetchFailed)
           | Response st b \<Rightarrow>
               if \<not> ok st then tokenLoop w endpoints address network rest balances
               else (case b of
                       BadJson \<Rightarrow> (balances, Some JsonParseError)
                     | Json data \<Rightarrow>
                         (case result data of
                            None \<Rightarrow> tokenLoop w endpoints address network rest balances
                          | Some r \<Rightarrow>
                              if status data = Some ''1'' \<and> r \<noteq> [] \<and> r \<noteq> ''0'' then
                                tokenLoop w endpoints address network rest
                                  (balances @
                                     [\<lparr>rb_tokenSymbol = symbol,
                                       rb_balance = jsDiv (parseInt r) (pow10 (tokenDecimals symbol)),
                                       rb_tokenAddress = Some contractAddress\<rparr>])
                              else tokenLoop w endpoints address network rest balances))))"

definition fetchTokenBalances :: "world \<Rightarrow> string \<Rightarrow> string \<Rightarrow> error + RawBalance list" where
  "fetchTokenBalances w address network =
     (case map_of TOKEN_CONTRACTS network of
        None \<Rightarrow> Inr []
      | Some tokens \<Rightarrow>
          (case map_of API_ENDPOINTS network of
             None \<Rightarrow> Inr []
           | Some endpoints \<Rightarrow> Inr (fst (tokenLoop w endpoints address network tokens []))))"

subsection \<open>fetchEVMBalance\<close>

definition fetchEVMBalanceBody :: "world \<Rightarrow> string \<Rightarrow> string \<Rightarrow> error + RawBalance list" where
  \<comment> \<open>the \<open>try\<close> block\<close>
  "fetchEVMBalanceBody w address network =
     (case fetchNativeBalance w address network of
        Inl e \<Rightarrow> Inl e
      | Inr nativeBalance \<Rightarrow>
          (let balances = (case nativeBalance of Some nb \<Rightarrow> [nb] | None \<Rightarrow> [])
           in case fetchTokenBalances w address network of
                Inl e \<Rightarrow> Inl e
              | Inr tokenBalances \<Rightarrow> Inr (balances @ tokenBalances)))"

definition fetchEVMBalance :: "world \<Rightarrow> string \<Rightarrow> string \<Rightarrow> error + RawBalance list" where
  "fetchEVMBalance w address network =
     (case fetchEVMBalanceBody w address network of
        Inl e \<Rightarrow> Inr []
      | Inr balances \<Rightarrow> Inr balances)"

subsection \<open>fetchTronBalance\<close>

definition trongrid :: string where
  \<comment> \<open>\<open>API_ENDPOINTS.tron.trongrid\<close>\<close>
  "trongrid =
     (case map_of API_ENDPOINTS ''tron'' of
        Some endpoints \<Rightarrow> endpointUrl endpoints ''trongrid''
      | None \<Rightarrow> ''undefined'')"

definition usdtTrc20Address :: string where
  "usdtTrc20Address = ''TR7NHqjeKQxGTCi8q8ZY4pL8otSzgjLj6t''"

definition tronAccountUrl :: "string \<Rightarrow> string" where
  "tronAccountUrl address = trongrid @ ''/v1/accounts/'' @ address"

definition tronTokensUrl :: "string \<Rightarrow> string" where
  "tronTokensUrl address = trongrid @ ''/v1/accounts/'' @ address @ ''/tokens?type=trc20''"

definition orZero :: "rat option \<Rightarrow> jsnum" where
  \<comment> \<open>\<open>account.balance || 0\<close>\<close>
  "orZero v =
     (case v of
        None \<Rightarrow> Fin 0
      | Some q \<Rightarrow> if truthyNum (jsonNumber q) then jsonNumber q else Fin 0)"

definition tronAccountStep :: "world \<Rightarrow> string \<Rightarrow> RawBalance list \<times> error option" where
  \<comment> \<open>the TRX part of the \<open>try\<close> block: the list built, and the exception raised, if any\<close>
  "tronAccountStep w address =
     (case tronAccounts w (tronAccountUrl address) of
        NetworkError \<Rightarrow> ([], Some FetchFailed)
      | Response st b \<Rightarrow>
          if \<not> ok st then ([], None)
          else (case b of
                  BadJson \<Rightarrow> ([], Some JsonParseError)
                | Json accountData \<Rightarrow>
                    (case acc_data accountData of
                       Some (account # _) \<Rightarrow>
                         (let trxBalance = jsDiv (orZero (acc_balance account)) (Fin 1000000)
                          in if gtZero trxBalance then
                               ([\<lparr>rb_tokenSymbol = ''TRX'', rb_balance = trxBalance,
                                  rb_tokenAddress = None\<rparr>], None)
                             else ([], None))
                     | _ \<Rightarrow> ([], None))))"

definition usdtEntry :: "world \<Rightarrow> tronToken \<Rightarrow> RawBalance" where
  "usdtEntry w token =
     \<lparr>rb_tokenSymbol = ''USDT'',
      rb_balance = jsDiv (parseInt (token_balance token)) (mathPow10 w (token_decimal token)),
      rb_tokenAddress = Some usdtTrc20Address\<rparr>"

definition tronTokenStep :: "world \<Rightarrow> string \<Rightarrow> RawBalance list \<Rightarrow> RawBalance list \<times> error option" where
  \<comment> \<open>the USDT-TRC20 part of the \<open>try\<close> block, continuing with the list built so far\<close>
  "tronTokenStep w address balances =
     (case tronTokens w (tronTokensUrl address) of
        NetworkError \<Rightarrow> (balances, Some FetchFailed)
      | Response st b \<Rightarrow>
          if \<not> ok st then (balances, None)
          else (case b of
                  BadJson \<Rightarrow> (balances, Some JsonParseError)
                | Json tokenData \<Rightarrow>
                    (case tok_data tokenData of
                       None \<Rightarrow> (balances, None)
                     | Some tokens \<Rightarrow>
                         (balances @
                            map (usdtEntry w)
                              (filter (\<lambda>token. token_address token = usdtTrc20Address) tokens),
                          None))))"

definition fetchTronBalance :: "world \<Rightarrow> string \<Rightarrow> error + RawBalance list" where
  \<comment> \<open>the \<open>catch\<close> block only logs; \<open>return balances\<close> follows it in either case\<close>
  "fetchTronBalance w address =
     (case tronAccountStep w address of
        (balances, Some e) \<Rightarrow> Inr balances
      | (balances, None) \<Rightarrow> Inr (fst (tronTokenStep w address balances)))"

section \<open>Storage\<close>

text \<open>
  The two tables the balance service works on. A nullable column is an option. A row to
  insert may leave a column out (\<open>Undefined\<close>), in which case the column default applies
  on insert and the column is left as it is by \<open>set\<close> on update, or give \<open>null\<close>
  explicitly. A decimal string given for a \<open>numeric\<close> column is represented by the number
  it spells out, and the column stores it rounded to its scale, or rejects it.

  The constraints of the schema on these two tables are enforced: an insert whose id is
  taken is rejected (primary key), and so is a balance whose wallet id is not the id of a
  connected wallet (foreign key). The references to the users table are outside this
  model. Ids that the database generates come from a stream \<open>gen\<close> of which the state
  counts the elements used; \<open>now\<close> is the clock reading of the call.
\<close>

datatype 'a field = Undefined | Null | Val 'a

definition orDefault :: "'a field \<Rightarrow> 'a option \<Rightarrow> 'a option" where
  "orDefault f d = (case f of Undefined \<Rightarrow> d | Null \<Rightarrow> None | Val v \<Rightarrow> Some v)"

definition roundHalfAway :: "rat \<Rightarrow> int" where
  \<comment> \<open>to the nearest integer, a tie away from zero\<close>
  "roundHalfAway q = (if 0 \<le> q then \<lfloor>q + 1 / 2\<rfloor> else - \<lfloor>- q + 1 / 2\<rfloor>)"

definition pgNumeric :: "nat \<Rightarrow> nat \<Rightarrow> jsnum \<Rightarrow> jsnum option" where
  \<comment> \<open>what a column \<open>numeric(p, s)\<close> stores for a value: the value rounded to \<open>s\<close>
      decimals, \<open>NaN\<close> as it is; \<open>None\<close> when the column rejects it (more than \<open>p - s\<close>
      digits before the point, or an infinity)\<close>
  "pgNumeric p s x =
     (case x of
        NaN \<Rightarrow> Some NaN
      | Fin a \<Rightarrow>
          (let r = of_int (roundHalfAway (a * 10 ^ s)) / 10 ^ s
           in if 10 ^ (p - s) \<le> \<bar>r\<bar> then None else Some (Fin r))
      | _ \<Rightarrow> None)"

record ConnectedWallet =
  cw_id :: string
  cw_userId :: string
  cw_walletType :: string
  cw_walletAddress :: string
  cw_chainId :: string
  cw_network :: string
  cw_isActive :: "bool option"
  cw_lastConnected :: "nat option"
  cw_createdAt :: "nat option"

record InsertConnectedWallet =
  icw_id :: "string option"
  icw_userId :: string
  icw_walletType :: string
  icw_walletAddress :: string
  icw_chainId :: string
  icw_network :: string
  icw_isActive :: "bool field"
  icw_lastConnected :: "nat field"
  icw_createdAt :: "nat field"

record WalletBalance =
  wb_id :: string
  wb_userId :: string
  wb_walletId :: "string option"
  wb_tokenSymbol :: string
  wb_tokenAddress :: "string option"
  wb_balance :: jsnum
  wb_balanceUSD :: "jsnum option"
  wb_lastUpdated :: "nat option"

record InsertWalletBalance =
  iwb_id :: "string option"
  iwb_userId :: string
  iwb_walletId :: "string option"
  iwb_tokenSymbol :: string
  iwb_tokenAddress :: "string option"
  iwb_balance :: jsnum
  iwb_balanceUSD :: "jsnum field"
  iwb_lastUpdated :: "nat field"

record db =
  wallets :: "ConnectedWallet list"
  balances :: "WalletBalance list"
  generated :: nat

subsection \<open>Connected wallets\<close>

definition notBefore :: "nat option \<Rightarrow> nat option \<Rightarrow> bool" where
  \<comment> \<open>\<open>a\<close> may precede \<open>b\<close> in descending order, nulls first\<close>
  "notBefore a b =
     (case a of
        None \<Rightarrow> True
      | Some x \<Rightarrow> (case b of None \<Rightarrow> False | Some y \<Rightarrow> y \<le> x))"

fun insertDesc :: "ConnectedWallet \<Rightarrow> ConnectedWallet list \<Rightarrow> ConnectedWallet list" where
  "insertDesc w [] = [w]"
| "insertDesc w (x # xs) =
     (if notBefore (cw_lastConnected w) (cw_lastConnected x) then w # x # xs
      else x # insertDesc w xs)"

definition orderByLastConnectedDesc :: "ConnectedWallet list \<Rightarrow> ConnectedWallet list" where
  "orderByLastConnectedDesc ws = foldr insertDesc ws []"

definition getConnectedWallets :: "db \<Rightarrow> string \<Rightarrow> ConnectedWallet list" where
  "getConnectedWallets d userId =
     orderByLastConnectedDesc (filter (\<lambda>w. cw_userId w = userId) (wallets d))"

definition createConnectedWallet ::
  "(nat \<Rightarrow> string) \<Rightarrow> nat \<Rightarrow> InsertConnectedWallet \<Rightarrow> db \<Rightarrow> (error + ConnectedWallet) \<times> db" where
  "createConnectedWallet gen now wallet d =
     (let (newId, d1) =
            (case icw_id wallet of
               Some i \<Rightarrow> (i, d)
             | None \<Rightarrow> (gen (generated d), d\<lparr>generated := Suc (generated d)\<rparr>))
      in if newId \<in> set (map cw_id (wallets d1)) then (Inl PersistenceFailure, d1)
         else
           (let connectedWallet =
                  \<lparr>cw_id = newId,
                   cw_userId = icw_userId wallet,
                   cw_walletType = icw_walletType wallet,
                   cw_walletAddress = icw_walletAddress wallet,
                   cw_chainId = icw_chainId wallet,
                   cw_network = icw_network wallet,
                   cw_isActive = orDefault (icw_isActive wallet) (Some True),
                   cw_lastConnected = orDefault (icw_lastConnected wallet) (Some now),
                   cw_createdAt = orDefault (icw_createdAt wallet) (Some now)\<rparr>
            in (Inr connectedWallet, d1\<lparr>wallets := wallets d1 @ [connectedWallet]\<rparr>)))"

subsection \<open>Wallet balances: upsertWalletBalance\<close>

definition orEmpty :: "string option \<Rightarrow> string" where
  \<comment> \<open>\<open>balance.walletId || ""\<close>\<close>
  "orEmpty s = (case s of None \<Rightarrow> [] | Some v \<Rightarrow> v)"

definition selectExisting :: "InsertWalletBalance \<Rightarrow> db \<Rightarrow> WalletBalance list" where
  \<comment> \<open>the select has no order clause; the rows come in table order\<close>
  "selectExisting balance d =
     filter (\<lambda>r. wb_userId r = iwb_userId balance
               \<and> wb_walletId r = Some (orEmpty (iwb_walletId balance))
               \<and> wb_tokenSymbol r = iwb_tokenSymbol balance)
            (balances d)"

definition storedValues :: "InsertWalletBalance \<Rightarrow> InsertWalletBalance option" where
  \<comment> \<open>the balance with its two decimal columns as the table stores them: \<open>balance\<close> is
      \<open>numeric(30, 18)\<close>, \<open>balanceUSD\<close> is \<open>numeric(20, 8)\<close>; \<open>None\<close> when a column rejects
      its value\<close>
  "storedValues balance =
     (case pgNumeric 30 18 (iwb_balance balance) of
        None \<Rightarrow> None
      | Some bal \<Rightarrow>
          (case iwb_balanceUSD balance of
             Val v \<Rightarrow>
               (case pgNumeric 20 8 v of
                  None \<Rightarrow> None
                | Some u \<Rightarrow> Some (balance\<lparr>iwb_balance := bal, iwb_balanceUSD := Val u\<rparr>))
           | _ \<Rightarrow> Some (balance\<lparr>iwb_balance := bal\<rparr>)))"

definition walletExists :: "db \<Rightarrow> string option \<Rightarrow> bool" where
  \<comment> \<open>the foreign key of \<open>wallet_id\<close>: null, or the id of a connected wallet\<close>
  "walletExists d walletId =
     (case walletId of None \<Rightarrow> True | Some i \<Rightarrow> i \<in> set (map cw_id (wallets d)))"

definition setBalance :: "nat \<Rightarrow> InsertWalletBalance \<Rightarrow> WalletBalance \<Rightarrow> WalletBalance" where
  \<comment> \<open>the \<open>set\<close> clause of the update, on the values as stored\<close>
  "setBalance now balance r =
     r\<lparr>wb_balance := iwb_balance balance,
       wb_balanceUSD := orDefault (iwb_balanceUSD balance) (wb_balanceUSD r),
       wb_lastUpdated := Some now\<rparr>"

definition updateById :: "nat \<Rightarrow> InsertWalletBalance \<Rightarrow> string \<Rightarrow> db \<Rightarrow> db" where
  "updateById now balance target d =
     d\<lparr>balances := map (\<lambda>r. if wb_id r = target then setBalance now balance r else r) (balances d)\<rparr>"

definition insertWalletBalance ::
  "(nat \<Rightarrow> string) \<Rightarrow> nat \<Rightarrow> InsertWalletBalance \<Rightarrow> db \<Rightarrow> (error + WalletBalance) \<times> db" where
  "insertWalletBalance gen now balance d =
     (let (newId, d1) =
            (case iwb_id balance of
               Some i \<Rightarrow> (i, d)
             | None \<Rightarrow> (gen (generated d), d\<lparr>generated := Suc (generated d)\<rparr>))
      in if newId \<in> set (map wb_id (balances d1)) then (Inl PersistenceFailure, d1)
         else if \<not> walletExists d1 (iwb_walletId balance) then (Inl PersistenceFailure, d1)
         else
           (case storedValues balance of
              None \<Rightarrow> (Inl PersistenceFailure, d1)
            | Some stored \<Rightarrow>
                (let newBalance =
                       \<lparr>wb_id = newId,
                        wb_userId = iwb_userId stored,
                        wb_walletId = iwb_walletId stored,
                        wb_tokenSymbol = iwb_tokenSymbol stored,
                        wb_tokenAddress = iwb_tokenAddress stored,
                        wb_balance = iwb_balance stored,
                        wb_balanceUSD = orDefault (iwb_balanceUSD stored) None,
                        wb_lastUpdated = orDefault (iwb_lastUpdated stored) (Some now)\<rparr>
                 in (Inr newBalance, d1\<lparr>balances := balances d1 @ [newBalance]\<rparr>))))"

definition upsertWalletBalance ::
  "(nat \<Rightarrow> string) \<Rightarrow> nat \<Rightarrow> InsertWalletBalance \<Rightarrow> db \<Rightarrow> (error + WalletBalance) \<times> db" where
  "upsertWalletBalance gen now balance d =
     (case selectExisting balance d of
        e # _ \<Rightarrow>
          (case storedValues balance of
             None \<Rightarrow> (Inl PersistenceFailure, d)
           | Some stored \<Rightarrow>
               (Inr (setBalance now stored e), updateById now stored (wb_id e) d))
      | [] \<Rightarrow> insertWalletBalance gen now balance d)"


definition balanceKey :: "WalletBalance \<Rightarrow> string \<times> string option \<times> string" where
  "balanceKey r = (wb_userId r, wb_walletId r, wb_tokenSymbol r)"



section \<open>Balance reconciler: fetchAndUpdateWalletBalances\<close>

definition fetchBalancesFor :: "world \<Rightarrow> ConnectedWallet \<Rightarrow> error + RawBalance list" where
  \<comment> \<open>the \<open>switch (wallet.network)\<close>\<close>
  "fetchBalancesFor w wallet =
     (if cw_network wallet = ''ethereum'' \<or> cw_network wallet = ''bsc''
         \<or> cw_network wallet = ''polygon'' then
        fetchEVMBalance w (cw_walletAddress wallet) (cw_network wallet)
      else if cw_network wallet = ''tron'' then
        fetchTronBalance w (cw_walletAddress wallet)
      else Inl (UnsupportedNetwork (cw_network wallet)))"

definition balanceData ::
  "string \<Rightarrow> string \<Rightarrow> (string \<rightharpoonup> jsnum) \<Rightarrow> RawBalance \<Rightarrow> InsertWalletBalance" where
  "balanceData userId walletId prices balance =
     \<lparr>iwb_id = None,
      iwb_userId = userId,
      iwb_walletId = Some walletId,
      iwb_tokenSymbol = rb_tokenSymbol balance,
      iwb_tokenAddress = rb_tokenAddress balance,
      iwb_balance = decimalOf (rb_balance balance),
      iwb_balanceUSD =
        (case prices (rb_tokenSymbol balance) of
           None \<Rightarrow> Undefined
         | Some price \<Rightarrow>
             if truthyNum price then Val (decimalOf (jsMul (rb_balance balance) price))
             else Undefined),
      iwb_lastUpdated = Undefined\<rparr>"

fun saveBalances ::
  "(nat \<Rightarrow> string) \<Rightarrow> nat \<Rightarrow> string \<Rightarrow> string \<Rightarrow> (string \<rightharpoonup> jsnum) \<Rightarrow> RawBalance list
     \<Rightarrow> WalletBalance list \<Rightarrow> db \<Rightarrow> (error + WalletBalance list) \<times> db" where
  \<comment> \<open>the loop that saves the balances; a failed upsert ends it with the earlier rows written\<close>
  "saveBalances gen now userId walletId prices [] savedBalances d = (Inr savedBalances, d)"
| "saveBalances gen now userId walletId prices (balance # rest) savedBalances d =
     (case upsertWalletBalance gen now (balanceData userId walletId prices balance) d of
        (Inl e, d1) \<Rightarrow> (Inl e, d1)
      | (Inr savedBalance, d1) \<Rightarrow>
          saveBalances gen now userId walletId prices rest (savedBalances @ [savedBalance]) d1)"

definition priceAndSave ::
  "(nat \<Rightarrow> string) \<Rightarrow> nat \<Rightarrow> world \<Rightarrow> string \<Rightarrow> string \<Rightarrow> RawBalance list \<Rightarrow> db
     \<Rightarrow> (error + WalletBalance list) \<times> db" where
  \<comment> \<open>what follows the dispatch: the price query and the saving loop\<close>
  "priceAndSave gen now w walletId userId rawBalances d =
     (let symbols = filter (\<lambda>s. s \<noteq> []) (map rb_tokenSymbol rawBalances)
      in case getTokenPrices w symbols of
           Inl e \<Rightarrow> (Inl e, d)
         | Inr prices \<Rightarrow> saveBalances gen now userId walletId prices rawBalances [] d)"

definition fetchAndUpdateWalletBalances ::
  "(nat \<Rightarrow> string) \<Rightarrow> nat \<Rightarrow> world \<Rightarrow> string \<Rightarrow> string \<Rightarrow> db
     \<Rightarrow> (error + WalletBalance list) \<times> db" where
  "fetchAndUpdateWalletBalances gen now w walletId userId d =
     (case find (\<lambda>wl. cw_id wl = walletId) (getConnectedWallets d userId) of
        None \<Rightarrow> (Inl WalletNotFound, d)
      | Some wallet \<Rightarrow>
          (case fetchBalancesFor w wallet of
             Inl e \<Rightarrow> (Inl e, d)
           | Inr rawBalances \<Rightarrow> priceAndSave gen now w walletId userId rawBalances d))"

section \<open>Wallet bootstrapper: initializeWalletWithAddresses\<close>

record PredefinedWallet =
  pw_address :: string
  pw_network :: string
  pw_walletType :: string
  pw_description :: string

definition ethWallet :: PredefinedWallet where
  "ethWallet =
     \<lparr>pw_address = ''0xB36EDa1ffC696FFba07D4Be5cd249FE5E0118130'', pw_network = ''ethereum'',
      pw_walletType = ''manual'', pw_description = ''ETH Wallet''\<rparr>"

definition btcWallet :: PredefinedWallet where
  "btcWallet =
     \<lparr>pw_address = ''bc1qv4fffwt8ux3k33n2dms5cdvuh6suc0gtfevxzu'', pw_network = ''bitcoin'',
      pw_walletType = ''manual'', pw_description = ''BTC Wallet''\<rparr>"

definition bnbWallet :: PredefinedWallet where
  "bnbWallet =
     \<lparr>pw_address = ''0xB36EDa1ffC696FFba07D4Be5cd249FE5E0118130'', pw_network = ''bsc'',
      pw_walletType = ''manual'', pw_description = ''BNB Wallet''\<rparr>"

definition usdtTronWallet :: PredefinedWallet where
  "usdtTronWallet =
     \<lparr>pw_address = ''TSt7yoNwGYRbtMMfkSAHE6dPs1cd9rxcco'', pw_network = ''tron'',
      pw_walletType = ''manual'', pw_description = ''USDT-TRON Wallet''\<rparr>"

definition predefinedWallets :: "PredefinedWallet list" where
  "predefinedWallets = [ethWallet, btcWallet, bnbWallet, usdtTronWallet]"

definition newConnection :: "nat \<Rightarrow> string \<Rightarrow> PredefinedWallet \<Rightarrow> InsertConnectedWallet" where
  "newConnection now userId wallet =
     \<lparr>icw_id = None,
      icw_userId = userId,
      icw_walletType = pw_walletType wallet,
      icw_walletAddress = pw_address wallet,
      icw_chainId = ''1'',
      icw_network = pw_network wallet,
      icw_isActive = Val True,
      icw_lastConnected = Val now,
      icw_createdAt = Undefined\<rparr>"

definition fetchable :: "string \<Rightarrow> bool" where
  "fetchable network = (network \<in> set [''ethereum'', ''bsc'', ''polygon'', ''tron''])"

definition initializeOne ::
  "(nat \<Rightarrow> string) \<Rightarrow> nat \<Rightarrow> world \<Rightarrow> string \<Rightarrow> db \<Rightarrow> PredefinedWallet \<Rightarrow> db" where
  \<comment> \<open>one round of the loop; its \<open>catch\<close> logs the error and the loop goes on\<close>
  "initializeOne gen now w userId d wallet =
     (case createConnectedWallet gen now (newConnection now userId wallet) d of
        (Inl e, d1) \<Rightarrow> d1
      | (Inr connectedWallet, d1) \<Rightarrow>
          if fetchable (pw_network wallet) then
            snd (fetchAndUpdateWalletBalances gen now w (cw_id connectedWallet) userId d1)
          else d1)"

definition initializeWalletWithAddresses ::
  "(nat \<Rightarrow> string) \<Rightarrow> nat \<Rightarrow> world \<Rightarrow> string \<Rightarrow> db \<Rightarrow> db" where
  "initializeWalletWithAddresses gen now w userId d =
     (if getConnectedWallets d userId = [] then
        foldl (initializeOne gen now w userId) d predefinedWallets
      else d)"

section \<open>Notions used to state the results\<close>

definition freshIds :: "(nat \<Rightarrow> string) \<Rightarrow> db \<Rightarrow> bool" where
  \<comment> \<open>the ids still to be generated are pairwise different and not in use\<close>
  "freshIds gen d =
     (inj gen \<and>
      (\<forall>k. generated d \<le> k \<longrightarrow>
         gen k \<notin> set (map cw_id (wallets d)) \<and> gen k \<notin> set (map wb_id (balances d))))"

definition seededWallet :: "nat \<Rightarrow> string \<Rightarrow> string \<Rightarrow> PredefinedWallet \<Rightarrow> ConnectedWallet" where
  \<comment> \<open>the row of a predefined wallet created for a user under the id \<open>ident\<close>\<close>
  "seededWallet now userId ident wallet =
     \<lparr>cw_id = ident, cw_userId = userId, cw_walletType = pw_walletType wallet,
      cw_walletAddress = pw_address wallet, cw_chainId = ''1'', cw_network = pw_network wallet,
      cw_isActive = Some True, cw_lastConnected = Some now, cw_createdAt = Some now\<rparr>"

definition afterCreate :: "(nat \<Rightarrow> string) \<Rightarrow> nat \<Rightarrow> string \<Rightarrow> PredefinedWallet \<Rightarrow> db \<Rightarrow> db" where
  \<comment> \<open>the database after \<open>createConnectedWallet\<close> for a predefined wallet\<close>
  "afterCreate gen now userId wallet d =
     snd (createConnectedWallet gen now (newConnection now userId wallet) d)"

definition afterRefresh :: "(nat \<Rightarrow> string) \<Rightarrow> nat \<Rightarrow> world \<Rightarrow> string \<Rightarrow> string \<Rightarrow> db \<Rightarrow> db" where
  \<comment> \<open>the database after a call of the reconciler\<close>
  "afterRefresh gen now w userId walletId d =
     snd (fetchAndUpdateWalletBalances gen now w walletId userId d)"

section \<open>Sample environments\<close>

text \<open>Concrete upstream states and database states on which the results below are run.\<close>

definition quoteWorld :: "rat \<Rightarrow> world" where
  \<comment> \<open>the price service quotes bitcoin at \<open>p\<close> dollars; nothing else answers\<close>
  "quoteWorld p =
     \<lparr>explorer = (\<lambda>u. NetworkError), tronAccounts = (\<lambda>u. NetworkError),
      tronTokens = (\<lambda>u. NetworkError),
      coingecko = (\<lambda>u. Response 200 (Json [''bitcoin'' \<mapsto> \<lparr>usd = Some p\<rparr>])),
      enginePow10 = pow10\<rparr>"

definition idsWorld :: world where
  \<comment> \<open>the price service knows bitcoin by its external id only\<close>
  "idsWorld =
     \<lparr>explorer = (\<lambda>u. NetworkError), tronAccounts = (\<lambda>u. NetworkError),
      tronTokens = (\<lambda>u. NetworkError),
      coingecko =
        (\<lambda>u. if u = ''https://api.coingecko.com/api/v3/simple/price?ids=bitcoin&vs_currencies=usd''
              then Response 200 (Json [''bitcoin'' \<mapsto> \<lparr>usd = Some 50000\<rparr>])
              else Response 200 (Json Map.empty)),
      enginePow10 = pow10\<rparr>"

definition sampleGen :: "nat \<Rightarrow> string" where
  "sampleGen k = replicate (Suc k) CHR ''g''"

definition sampleWallet :: "string \<Rightarrow> string \<Rightarrow> string \<Rightarrow> nat \<Rightarrow> ConnectedWallet" where
  "sampleWallet ident userId network t =
     \<lparr>cw_id = ident, cw_userId = userId, cw_walletType = ''manual'',
      cw_walletAddress = ''0xabc'', cw_chainId = ''1'', cw_network = network,
      cw_isActive = Some True, cw_lastConnected = Some t, cw_createdAt = Some t\<rparr>"







definition deadWorld :: world where
  \<comment> \<open>no upstream service can be reached\<close>
  "deadWorld =
     \<lparr>explorer = (\<lambda>u. NetworkError), tronAccounts = (\<lambda>u. NetworkError),
      tronTokens = (\<lambda>u. NetworkError), coingecko = (\<lambda>u. NetworkError),
      enginePow10 = pow10\<rparr>"

definition walletDb :: db where
  \<comment> \<open>user u1 has an ethereum wallet and a solana wallet, user u2 a tron wallet\<close>
  "walletDb =
     \<lparr>wallets = [sampleWallet ''w1'' ''u1'' ''ethereum'' 11, sampleWallet ''w2'' ''u2'' ''tron'' 12,
                 sampleWallet ''w3'' ''u1'' ''solana'' 13],
      balances = [], generated = 0\<rparr>"

definition zeroReply :: explorerData where
  "zeroReply = \<lparr>status = Some ''1'', result = Some ''0''\<rparr>"

definition zeroWorld :: world where
  \<comment> \<open>every address is known and holds nothing\<close>
  "zeroWorld =
     \<lparr>explorer = (\<lambda>u. Response 200 (Json zeroReply)),
      tronAccounts = (\<lambda>u. Response 200 (Json \<lparr>acc_data = Some [\<lparr>acc_balance = Some 0\<rparr>]\<rparr>)),
      tronTokens = (\<lambda>u. Response 200 (Json \<lparr>tok_data = Some []\<rparr>)),
      coingecko = (\<lambda>u. Response 200 (Json Map.empty)),
      enginePow10 = pow10\<rparr>"

definition nativeReply :: explorerData where
  "nativeReply = \<lparr>status = Some ''1'', result = Some ''1000000000000000000''\<rparr>"

definition usdtReply :: explorerData where
  "usdtReply = \<lparr>status = Some ''1'', result = Some ''5000000''\<rparr>"

definition etherscanNativeUrl :: string where
  "etherscanNativeUrl =
     ''https://api.etherscan.io/api?module=account&action=balance&address=0xabc&tag=latest''"

definition etherscanUsdtUrl :: string where
  "etherscanUsdtUrl =
     ''https://api.etherscan.io/api?module=account&action=tokenbalance&contractaddress=0xdAC17F958D2ee523a2206206994597C13D831ec7&address=0xabc&tag=latest''"

definition richWorld :: world where
  \<comment> \<open>the address 0xabc holds one ether and five USDT; the other token queries fail\<close>
  "richWorld =
     \<lparr>explorer = (\<lambda>u. if u = etherscanNativeUrl then Response 200 (Json nativeReply)
                       else if u = etherscanUsdtUrl then Response 200 (Json usdtReply)
                       else NetworkError),
      tronAccounts = (\<lambda>u. Response 200 (Json \<lparr>acc_data = Some [\<lparr>acc_balance = Some 5000000\<rparr>]\<rparr>)),
      tronTokens = (\<lambda>u. NetworkError),
      coingecko = (\<lambda>u. NetworkError),
      enginePow10 = pow10\<rparr>"


section \<open>Numbers used in the results\<close>

lemma roundDouble_0: "roundDouble 0 = Fin 0"
  by (simp add: roundDouble_def)

lemma roundDouble_1: "roundDouble 1 = Fin 1"
  by code_simp

lemma roundDouble_5: "roundDouble 5 = Fin 5"
  by code_simp

lemma roundDouble_50000: "roundDouble 50000 = Fin 50000"
  by code_simp


lemma parseInt_0: "parseInt ''0'' = Fin 0"
  by code_simp

lemma parseInt_5000000: "parseInt ''5000000'' = Fin 5000000"
  by code_simp

lemma parseInt_1e18: "parseInt ''1000000000000000000'' = Fin 1000000000000000000"
  by code_simp

lemma pow10_6: "pow10 6 = Fin 1000000"
  by code_simp

lemma pow10_18: "pow10 18 = Fin 1000000000000000000"
  by code_simp

lemma decimalOf_0: "decimalOf (Fin 0) = Fin 0"
  by (simp add: decimalOf_def)

lemma pgNumeric_0: "pgNumeric 30 18 (Fin 0) = Some (Fin 0)"
  by code_simp



section \<open>Results on the price oracle\<close>

lemma collectPrices_lookup:
  "collectPrices data symbol =
     (case map_of symbolMapping symbol of None \<Rightarrow> None | Some ident \<Rightarrow> quotedPrice data ident)"
  by (simp add: collectPrices_def symbolMapping_def split: option.splits)

lemma dom_collectPrices: "dom (collectPrices data) \<subseteq> fst ` set symbolMapping"
  by (auto simp: collectPrices_lookup dom_def split: option.splits
      dest: map_of_SomeD intro: rev_image_eqI)

lemma getTokenPrices_cases:
  "getTokenPrices w symbols = Inr Map.empty \<or>
   (\<exists>st data. coingecko w (priceQueryUrl symbols) = Response st (Json data) \<and> ok st \<and>
      getTokenPrices w symbols = Inr (collectPrices data))"
  by (simp add: getTokenPrices_def getTokenPricesBody_def split: response.splits body.splits)

lemma getTokenPrices_total: "\<exists>prices. getTokenPrices w symbols = Inr prices"
  using getTokenPrices_cases [of w symbols] by auto

text \<open>
  Claim C7. Whatever symbols are requested and whatever the price service does,
  \<open>getTokenPrices\<close> returns a mapping, never an error, and every key of the mapping is one
  of the seven symbols of the internal table. A requested symbol outside the table is
  therefore absent from the result.
\<close>

theorem getTokenPrices_only_table_symbols:
  "\<exists>prices. getTokenPrices w symbols = Inr prices \<and>
     dom prices \<subseteq> {''BTC'', ''ETH'', ''BNB'', ''USDT'', ''USDC'', ''MATIC'', ''TRX''}"
proof -
  have tab: "fst ` set symbolMapping =
      {''BTC'', ''ETH'', ''BNB'', ''USDT'', ''USDC'', ''MATIC'', ''TRX''}"
    by (simp add: symbolMapping_def)
  from getTokenPrices_cases [of w symbols] show ?thesis
  proof
    assume "getTokenPrices w symbols = Inr Map.empty"
    then show ?thesis by simp
  next
    assume "\<exists>st data. coingecko w (priceQueryUrl symbols) = Response st (Json data) \<and> ok st \<and>
      getTokenPrices w symbols = Inr (collectPrices data)"
    then obtain data where "getTokenPrices w symbols = Inr (collectPrices data)" by blast
    with dom_collectPrices [of data] tab show ?thesis by simp
  qed
qed

text \<open>
  Claim C8. The claim says that the ids sent to the price service are the external ids of
  the requested symbols. The code joins the requested symbols themselves into the query:
  for the request \<open>["BTC"]\<close> the query asks for \<open>ids=BTC\<close>, not \<open>ids=bitcoin\<close>, and
  against a service that knows bitcoin by its external id the result is empty.
\<close>

theorem priceQuery_sends_raw_symbols:
  "priceQueryUrl [''BTC''] =
     ''https://api.coingecko.com/api/v3/simple/price?ids=BTC&vs_currencies=usd''
   \<and> getTokenPrices idsWorld [''BTC''] = Inr Map.empty"
  by (simp add: priceQueryUrl_def COINGECKO_API_def getTokenPrices_def getTokenPricesBody_def
      idsWorld_def ok_def collectPrices_def symbolMapping_def quotedPrice_def)

text \<open>
  Claim C10, as amended. The requested symbols enter \<open>getTokenPrices\<close> through the query
  url only. When the service answers the query with a success status and parsable data,
  every symbol of the internal table whose external id is quoted there with a truthy
  \<open>usd\<close> value (a number other than zero) is in the result with that value, whether or not
  the symbol was requested.
\<close>

theorem getTokenPrices_ignores_request:
  assumes "coingecko w (priceQueryUrl symbols) = Response st (Json data)" and "ok st"
    and "(symbol, ident) \<in> set symbolMapping"
    and "data ident = Some q" and "usd q = Some v" and "truthyNum (jsonNumber v)"
  shows "\<exists>prices. getTokenPrices w symbols = Inr prices \<and> prices symbol = Some (jsonNumber v)"
proof -
  have g: "getTokenPrices w symbols = Inr (collectPrices data)"
    using assms(1,2) by (simp add: getTokenPrices_def getTokenPricesBody_def)
  have "map_of symbolMapping symbol = Some ident"
    using assms(3) by (auto simp: symbolMapping_def)
  then have "collectPrices data symbol = quotedPrice data ident"
    by (simp add: collectPrices_lookup)
  also have "\<dots> = Some (jsonNumber v)"
    using assms(4,5,6) by (simp add: quotedPrice_def)
  finally show ?thesis using g by simp
qed

text \<open>The amended claim at work: nothing is requested, and BTC is returned.\<close>

theorem getTokenPrices_ignores_request_witness:
  "coingecko (quoteWorld 50000) (priceQueryUrl []) =
     Response 200 (Json [''bitcoin'' \<mapsto> \<lparr>usd = Some 50000\<rparr>])
   \<and> ok 200 \<and> (''BTC'', ''bitcoin'') \<in> set symbolMapping
   \<and> [''bitcoin'' \<mapsto> \<lparr>usd = Some 50000\<rparr>] ''bitcoin'' = Some \<lparr>usd = Some 50000\<rparr>
   \<and> usd \<lparr>usd = Some 50000\<rparr> = Some 50000
   \<and> truthyNum (jsonNumber 50000)
   \<and> (\<exists>prices. getTokenPrices (quoteWorld 50000) [] = Inr prices
         \<and> prices ''BTC'' = Some (Fin 50000))"
proof -
  have a: "coingecko (quoteWorld 50000) (priceQueryUrl []) =
      Response 200 (Json [''bitcoin'' \<mapsto> \<lparr>usd = Some 50000\<rparr>])"
    by (simp add: quoteWorld_def)
  have b: "ok 200" by (simp add: ok_def)
  have c: "(''BTC'', ''bitcoin'') \<in> set symbolMapping" by (simp add: symbolMapping_def)
  have d: "truthyNum (jsonNumber 50000)"
    by (simp add: truthyNum_def jsonNumber_def roundDouble_50000)
  from getTokenPrices_ignores_request [OF a b c _ _ d, of "\<lparr>usd = Some 50000\<rparr>"]
  show ?thesis using a b c d by (simp add: jsonNumber_def roundDouble_50000)
qed

text \<open>
  The claim as first stated fails for a quote of zero: bitcoin appears in the answer with a
  \<open>usd\<close> field, and BTC is not in the result.
\<close>

theorem zero_quote_is_dropped:
  "coingecko (quoteWorld 0) (priceQueryUrl []) =
     Response 200 (Json [''bitcoin'' \<mapsto> \<lparr>usd = Some 0\<rparr>])
   \<and> ok 200 \<and> (''BTC'', ''bitcoin'') \<in> set symbolMapping
   \<and> getTokenPrices (quoteWorld 0) [] = Inr Map.empty"
  by (simp add: quoteWorld_def symbolMapping_def getTokenPrices_def getTokenPricesBody_def ok_def
      collectPrices_def quotedPrice_def jsonNumber_def roundDouble_def truthyNum_def)

section \<open>Results on the storage: upsertWalletBalance\<close>

lemma setBalance_keeps [simp]:
  "balanceKey (setBalance now b r) = balanceKey r"
  "wb_walletId (setBalance now b r) = wb_walletId r"
  "wb_id (setBalance now b r) = wb_id r"
  by (simp_all add: setBalance_def balanceKey_def)


lemma balances_updateById:
  "balances (updateById now b t d) =
     map (\<lambda>r. if wb_id r = t then setBalance now b r else r) (balances d)"
  by (simp add: updateById_def)


lemma ids_after_update:
  "map wb_id (map (\<lambda>r. if wb_id r = t then setBalance now b r else r) rows) = map wb_id rows"
  by (induction rows) auto









lemma ids_updateById: "map wb_id (balances (updateById now b t d)) = map wb_id (balances d)"
  by (simp only: balances_updateById ids_after_update)














section \<open>Results on the reconciler\<close>

lemma set_insertDesc: "set (insertDesc w xs) = insert w (set xs)"
  by (induction xs) auto

lemma set_orderByLastConnectedDesc: "set (orderByLastConnectedDesc ws) = set ws"
  by (induction ws) (auto simp: orderByLastConnectedDesc_def set_insertDesc)

lemma set_getConnectedWallets:
  "set (getConnectedWallets d userId) = {wl \<in> set (wallets d). cw_userId wl = userId}"
  by (simp add: getConnectedWallets_def set_orderByLastConnectedDesc)

lemma upsert_error:
  "fst (upsertWalletBalance gen now b d) = Inl e \<Longrightarrow> e = PersistenceFailure"
  by (auto simp: upsertWalletBalance_def insertWalletBalance_def Let_def
      split: list.splits option.splits if_splits)

lemma saveBalances_error:
  "fst (saveBalances gen now userId walletId prices raw saved d) = Inl e \<Longrightarrow> e = PersistenceFailure"
proof (induction raw arbitrary: saved d)
  case Nil
  then show ?case by simp
next
  case (Cons r raw)
  show ?case
  proof (cases "upsertWalletBalance gen now (balanceData userId walletId prices r) d")
    case (Pair res d1)
    show ?thesis
    proof (cases res)
      case (Inl e')
      with Pair Cons.prems have "e = e'" by simp
      moreover from Pair Inl have "e' = PersistenceFailure"
        using upsert_error [of gen now "balanceData userId walletId prices r" d e'] by simp
      ultimately show ?thesis by simp
    next
      case (Inr row)
      with Pair Cons.prems Cons.IH show ?thesis by simp
    qed
  qed
qed

lemma fetchEVMBalance_total: "\<exists>bs. fetchEVMBalance w a n = Inr bs"
  by (simp add: fetchEVMBalance_def split: sum.splits)

lemma fetchTronBalance_total: "\<exists>bs. fetchTronBalance w a = Inr bs"
  by (simp add: fetchTronBalance_def split: prod.splits option.splits)

lemma priceAndSave_error:
  "fst (priceAndSave gen now w walletId userId raw d) = Inl e \<Longrightarrow> e = PersistenceFailure"
  using getTokenPrices_total [of w "filter (\<lambda>s. s \<noteq> []) (map rb_tokenSymbol raw)"]
  by (auto simp: priceAndSave_def Let_def dest: saveBalances_error)

lemma fetchBalancesFor_error:
  "fetchBalancesFor w wallet = Inl e \<Longrightarrow> e = UnsupportedNetwork (cw_network wallet)"
  using fetchEVMBalance_total [of w "cw_walletAddress wallet" "cw_network wallet"]
    fetchTronBalance_total [of w "cw_walletAddress wallet"]
  by (auto simp: fetchBalancesFor_def split: if_splits)

lemma found_not_WalletNotFound:
  assumes "find (\<lambda>wl. cw_id wl = walletId) (getConnectedWallets d userId) = Some wallet"
  shows "fst (fetchAndUpdateWalletBalances gen now w walletId userId d) \<noteq> Inl WalletNotFound"
proof
  assume nf: "fst (fetchAndUpdateWalletBalances gen now w walletId userId d) = Inl WalletNotFound"
  show False
  proof (cases "fetchBalancesFor w wallet")
    case (Inl e)
    with fetchBalancesFor_error [OF Inl] nf assms show False
      by (simp add: fetchAndUpdateWalletBalances_def)
  next
    case (Inr raw)
    with nf assms have "fst (priceAndSave gen now w walletId userId raw d) = Inl WalletNotFound"
      by (simp add: fetchAndUpdateWalletBalances_def)
    from priceAndSave_error [OF this] show False by simp
  qed
qed

text \<open>
  Claim C4. \<open>fetchAndUpdateWalletBalances(walletId, userId)\<close> fails with
  \<open>Wallet not found\<close> exactly when no connected wallet has that id and that user. In
  particular, wallet ids being unique, the id of a wallet of another user gives this error,
  and the database is left as it was.
\<close>

theorem wallet_not_found_iff:
  "(fst (fetchAndUpdateWalletBalances gen now w walletId userId d) = Inl WalletNotFound
      \<longleftrightarrow> \<not> (\<exists>wl. wl \<in> set (wallets d) \<and> cw_id wl = walletId \<and> cw_userId wl = userId))
   \<and> (distinct (map cw_id (wallets d)) \<and> other \<in> set (wallets d) \<and> cw_id other = walletId
        \<and> cw_userId other \<noteq> userId
      \<longrightarrow> fetchAndUpdateWalletBalances gen now w walletId userId d = (Inl WalletNotFound, d))"
proof (intro conjI impI)
  show "fst (fetchAndUpdateWalletBalances gen now w walletId userId d) = Inl WalletNotFound
      \<longleftrightarrow> \<not> (\<exists>wl. wl \<in> set (wallets d) \<and> cw_id wl = walletId \<and> cw_userId wl = userId)"
  proof (cases "find (\<lambda>wl. cw_id wl = walletId) (getConnectedWallets d userId)")
    case None
    then have "\<not> (\<exists>wl. wl \<in> set (getConnectedWallets d userId) \<and> cw_id wl = walletId)"
      by (simp add: find_None_iff)
    then have "\<not> (\<exists>wl. wl \<in> set (wallets d) \<and> cw_id wl = walletId \<and> cw_userId wl = userId)"
      by (auto simp: set_getConnectedWallets)
    with None show ?thesis by (simp add: fetchAndUpdateWalletBalances_def)
  next
    case (Some wallet)
    then have "wallet \<in> set (getConnectedWallets d userId) \<and> cw_id wallet = walletId"
      by (auto simp: find_Some_iff in_set_conv_nth)
    then have "\<exists>wl. wl \<in> set (wallets d) \<and> cw_id wl = walletId \<and> cw_userId wl = userId"
      by (auto simp: set_getConnectedWallets)
    with found_not_WalletNotFound [OF Some] show ?thesis by simp
  qed
next
  assume a: "distinct (map cw_id (wallets d)) \<and> other \<in> set (wallets d) \<and> cw_id other = walletId
        \<and> cw_userId other \<noteq> userId"
  have "\<not> (\<exists>wl. wl \<in> set (getConnectedWallets d userId) \<and> cw_id wl = walletId)"
  proof
    assume "\<exists>wl. wl \<in> set (getConnectedWallets d userId) \<and> cw_id wl = walletId"
    then obtain wl where wl: "wl \<in> set (wallets d)" "cw_userId wl = userId" "cw_id wl = walletId"
      by (auto simp: set_getConnectedWallets)
    with a have "wl = other" by (auto simp: distinct_map inj_on_def)
    with wl a show False by simp
  qed
  then have "find (\<lambda>wl. cw_id wl = walletId) (getConnectedWallets d userId) = None"
    by (simp add: find_None_iff)
  then show "fetchAndUpdateWalletBalances gen now w walletId userId d = (Inl WalletNotFound, d)"
    by (simp add: fetchAndUpdateWalletBalances_def)
qed

lemma walletDb_eval:
  "getConnectedWallets walletDb ''u1'' = [sampleWallet ''w3'' ''u1'' ''solana'' 13, sampleWallet ''w1'' ''u1'' ''ethereum'' 11]"
  "getConnectedWallets walletDb ''u2'' = [sampleWallet ''w2'' ''u2'' ''tron'' 12]"
  by (simp_all add: getConnectedWallets_def walletDb_def sampleWallet_def orderByLastConnectedDesc_def notBefore_def)

text \<open>User u1 asks for the wallet of user u2, then for a wallet of their own.\<close>

theorem wallet_not_found_iff_witness:
  "distinct (map cw_id (wallets walletDb))
   \<and> sampleWallet ''w2'' ''u2'' ''tron'' 12 \<in> set (wallets walletDb)
   \<and> cw_id (sampleWallet ''w2'' ''u2'' ''tron'' 12) = ''w2''
   \<and> cw_userId (sampleWallet ''w2'' ''u2'' ''tron'' 12) \<noteq> ''u1''
   \<and> fetchAndUpdateWalletBalances sampleGen 7 deadWorld ''w2'' ''u1'' walletDb
       = (Inl WalletNotFound, walletDb)
   \<and> fst (fetchAndUpdateWalletBalances sampleGen 7 deadWorld ''w1'' ''u1'' walletDb)
       \<noteq> Inl WalletNotFound"
proof -
  have h: "distinct (map cw_id (wallets walletDb))
      \<and> sampleWallet ''w2'' ''u2'' ''tron'' 12 \<in> set (wallets walletDb)
      \<and> cw_id (sampleWallet ''w2'' ''u2'' ''tron'' 12) = ''w2''
      \<and> cw_userId (sampleWallet ''w2'' ''u2'' ''tron'' 12) \<noteq> ''u1''"
    by (simp add: walletDb_def sampleWallet_def)
  have own: "sampleWallet ''w1'' ''u1'' ''ethereum'' 11 \<in> set (wallets walletDb)
      \<and> cw_id (sampleWallet ''w1'' ''u1'' ''ethereum'' 11) = ''w1''
      \<and> cw_userId (sampleWallet ''w1'' ''u1'' ''ethereum'' 11) = ''u1''"
    by (simp add: walletDb_def sampleWallet_def)
  note t1 = wallet_not_found_iff [where d = walletDb and walletId = "''w2''" and userId = "''u1''"
      and other = "sampleWallet ''w2'' ''u2'' ''tron'' 12" and gen = sampleGen and now = 7 and w = deadWorld]
  note t2 = wallet_not_found_iff [where d = walletDb and walletId = "''w1''" and userId = "''u1''"
      and gen = sampleGen and now = 7 and w = deadWorld]
  have a: "fetchAndUpdateWalletBalances sampleGen 7 deadWorld ''w2'' ''u1'' walletDb
       = (Inl WalletNotFound, walletDb)"
    using t1 h by blast
  have b: "fst (fetchAndUpdateWalletBalances sampleGen 7 deadWorld ''w1'' ''u1'' walletDb)
       \<noteq> Inl WalletNotFound"
    using t2 own by blast
  from h a b show ?thesis by simp
qed

text \<open>
  Claim C5. For a wallet found in the first step, the reconciler goes on with the balances
  of \<open>fetchEVMBalance\<close> when the network is ethereum, bsc or polygon, with those of
  \<open>fetchTronBalance\<close> when it is tron, and fails with \<open>Unsupported network\<close>, the
  database untouched, for every other network.
\<close>

theorem dispatch_on_network:
  assumes "find (\<lambda>wl. cw_id wl = walletId) (getConnectedWallets d userId) = Some wallet"
  shows "(cw_network wallet \<in> {''ethereum'', ''bsc'', ''polygon''}
            \<longrightarrow> (\<exists>raw. fetchEVMBalance w (cw_walletAddress wallet) (cw_network wallet) = Inr raw
                   \<and> fetchAndUpdateWalletBalances gen now w walletId userId d
                       = priceAndSave gen now w walletId userId raw d))
       \<and> (cw_network wallet = ''tron''
            \<longrightarrow> (\<exists>raw. fetchTronBalance w (cw_walletAddress wallet) = Inr raw
                   \<and> fetchAndUpdateWalletBalances gen now w walletId userId d
                       = priceAndSave gen now w walletId userId raw d))
       \<and> (cw_network wallet \<notin> {''ethereum'', ''bsc'', ''polygon'', ''tron''}
            \<longrightarrow> fetchAndUpdateWalletBalances gen now w walletId userId d
                  = (Inl (UnsupportedNetwork (cw_network wallet)), d))"
proof (intro conjI impI)
  assume n: "cw_network wallet \<in> {''ethereum'', ''bsc'', ''polygon''}"
  obtain raw where raw: "fetchEVMBalance w (cw_walletAddress wallet) (cw_network wallet) = Inr raw"
    using fetchEVMBalance_total by blast
  from n have "fetchBalancesFor w wallet = Inr raw"
    by (auto simp: fetchBalancesFor_def raw)
  with assms raw
  show "\<exists>raw. fetchEVMBalance w (cw_walletAddress wallet) (cw_network wallet) = Inr raw
      \<and> fetchAndUpdateWalletBalances gen now w walletId userId d
          = priceAndSave gen now w walletId userId raw d"
    by (simp add: fetchAndUpdateWalletBalances_def)
next
  assume n: "cw_network wallet = ''tron''"
  obtain raw where raw: "fetchTronBalance w (cw_walletAddress wallet) = Inr raw"
    using fetchTronBalance_total by blast
  from n have "fetchBalancesFor w wallet = Inr raw"
    by (simp add: fetchBalancesFor_def raw)
  with assms raw
  show "\<exists>raw. fetchTronBalance w (cw_walletAddress wallet) = Inr raw
      \<and> fetchAndUpdateWalletBalances gen now w walletId userId d
          = priceAndSave gen now w walletId userId raw d"
    by (simp add: fetchAndUpdateWalletBalances_def)
next
  assume "cw_network wallet \<notin> {''ethereum'', ''bsc'', ''polygon'', ''tron''}"
  then have "fetchBalancesFor w wallet = Inl (UnsupportedNetwork (cw_network wallet))"
    by (simp add: fetchBalancesFor_def)
  with assms
  show "fetchAndUpdateWalletBalances gen now w walletId userId d
      = (Inl (UnsupportedNetwork (cw_network wallet)), d)"
    by (simp add: fetchAndUpdateWalletBalances_def)
qed

lemma walletDb_find:
  "find (\<lambda>wl. cw_id wl = ''w1'') (getConnectedWallets walletDb ''u1'') = Some (sampleWallet ''w1'' ''u1'' ''ethereum'' 11)"
  "find (\<lambda>wl. cw_id wl = ''w2'') (getConnectedWallets walletDb ''u2'') = Some (sampleWallet ''w2'' ''u2'' ''tron'' 12)"
  "find (\<lambda>wl. cw_id wl = ''w3'') (getConnectedWallets walletDb ''u1'') = Some (sampleWallet ''w3'' ''u1'' ''solana'' 13)"
  by (simp_all add: walletDb_eval) (simp_all add: sampleWallet_def)

lemma deadWorld_fetchers:
  "fetchEVMBalance deadWorld a ''ethereum'' = Inr []"
  "fetchTronBalance deadWorld a = Inr []"
  by (simp_all add: fetchEVMBalance_def fetchEVMBalanceBody_def fetchNativeBalance_def
      fetchNativeBalanceBody_def nativeRequest_def fetchTokenBalances_def tokenRequest_def
      API_ENDPOINTS_def TOKEN_CONTRACTS_def deadWorld_def fetchTronBalance_def tronAccountStep_def
      tronTokenStep_def)

lemma deadWorld_priceAndSave:
  "priceAndSave gen now deadWorld walletId userId [] d = (Inr [], d)"
  by (simp add: priceAndSave_def getTokenPrices_def getTokenPricesBody_def deadWorld_def)

text \<open>One wallet for each of the three branches, with no upstream service reachable.\<close>

theorem dispatch_on_network_witness:
  "find (\<lambda>wl. cw_id wl = ''w1'') (getConnectedWallets walletDb ''u1'') = Some (sampleWallet ''w1'' ''u1'' ''ethereum'' 11)
   \<and> cw_network (sampleWallet ''w1'' ''u1'' ''ethereum'' 11) \<in> {''ethereum'', ''bsc'', ''polygon''}
   \<and> fetchAndUpdateWalletBalances sampleGen 7 deadWorld ''w1'' ''u1'' walletDb = (Inr [], walletDb)
   \<and> find (\<lambda>wl. cw_id wl = ''w2'') (getConnectedWallets walletDb ''u2'') = Some (sampleWallet ''w2'' ''u2'' ''tron'' 12)
   \<and> cw_network (sampleWallet ''w2'' ''u2'' ''tron'' 12) = ''tron''
   \<and> fetchAndUpdateWalletBalances sampleGen 7 deadWorld ''w2'' ''u2'' walletDb = (Inr [], walletDb)
   \<and> find (\<lambda>wl. cw_id wl = ''w3'') (getConnectedWallets walletDb ''u1'') = Some (sampleWallet ''w3'' ''u1'' ''solana'' 13)
   \<and> cw_network (sampleWallet ''w3'' ''u1'' ''solana'' 13) \<notin> {''ethereum'', ''bsc'', ''polygon'', ''tron''}
   \<and> fetchAndUpdateWalletBalances sampleGen 7 deadWorld ''w3'' ''u1'' walletDb
       = (Inl (UnsupportedNetwork ''solana''), walletDb)"
proof -
  have n1: "cw_network (sampleWallet ''w1'' ''u1'' ''ethereum'' 11) = ''ethereum''"
    and n2: "cw_network (sampleWallet ''w2'' ''u2'' ''tron'' 12) = ''tron''"
    and n3: "cw_network (sampleWallet ''w3'' ''u1'' ''solana'' 13) = ''solana''"
    by (simp_all add: sampleWallet_def)
  have e1: "fetchAndUpdateWalletBalances sampleGen 7 deadWorld ''w1'' ''u1'' walletDb = (Inr [], walletDb)"
    using dispatch_on_network [OF walletDb_find(1), of deadWorld sampleGen 7]
    by (simp add: n1 deadWorld_fetchers deadWorld_priceAndSave)
  have e2: "fetchAndUpdateWalletBalances sampleGen 7 deadWorld ''w2'' ''u2'' walletDb = (Inr [], walletDb)"
    using dispatch_on_network [OF walletDb_find(2), of deadWorld sampleGen 7]
    by (simp add: n2 deadWorld_fetchers deadWorld_priceAndSave)
  have e3: "fetchAndUpdateWalletBalances sampleGen 7 deadWorld ''w3'' ''u1'' walletDb
       = (Inl (UnsupportedNetwork ''solana''), walletDb)"
    using dispatch_on_network [OF walletDb_find(3), of deadWorld sampleGen 7]
    by (simp add: n3)
  from e1 e2 e3 walletDb_find show ?thesis by (simp add: n1 n2 n3)
qed

section \<open>Results on the chain balance fetchers\<close>

lemma zero_native:
  "fetchNativeBalance zeroWorld ''0xabc'' ''ethereum''
     = Inr (Some \<lparr>rb_tokenSymbol = ''ETH'', rb_balance = Fin 0, rb_tokenAddress = None\<rparr>)"
  by (simp add: fetchNativeBalance_def fetchNativeBalanceBody_def nativeRequest_def
      API_ENDPOINTS_def zeroWorld_def zeroReply_def ok_def parseInt_0 pow10_18 jsDiv_def roundDouble_0)

lemma zero_tokens: "fetchTokenBalances zeroWorld ''0xabc'' ''ethereum'' = Inr []"
  by (simp add: fetchTokenBalances_def tokenRequest_def TOKEN_CONTRACTS_def
      API_ENDPOINTS_def zeroWorld_def zeroReply_def ok_def)

lemma zero_tron: "fetchTronBalance zeroWorld a = Inr []"
  by (simp add: fetchTronBalance_def tronAccountStep_def tronTokenStep_def zeroWorld_def ok_def
      orZero_def jsonNumber_def roundDouble_0 truthyNum_def jsDiv_def gtZero_def)

lemma zero_evm:
  "fetchEVMBalance zeroWorld ''0xabc'' ''ethereum''
     = Inr [\<lparr>rb_tokenSymbol = ''ETH'', rb_balance = Fin 0, rb_tokenAddress = None\<rparr>]"
  by (simp add: fetchEVMBalance_def fetchEVMBalanceBody_def zero_native zero_tokens)

text \<open>
  Claim C3. The claim says that a refresh of a wallet on which every upstream query
  reports a zero balance returns the empty list. For an ethereum wallet the explorer
  reports \<open>status "1", result "0"\<close> for the native coin; the EVM token loop and the TRX
  part of the TRON fetcher leave zero balances out, \<open>fetchNativeBalance\<close> does not, and
  the refresh saves and returns an ETH row with balance 0.
\<close>

theorem zero_native_balance_is_saved:
  "fetchAndUpdateWalletBalances sampleGen 7 zeroWorld ''w1'' ''u1'' walletDb
     = (Inr [\<lparr>wb_id = ''g'', wb_userId = ''u1'', wb_walletId = Some ''w1'', wb_tokenSymbol = ''ETH'',
              wb_tokenAddress = None, wb_balance = Fin 0, wb_balanceUSD = None,
              wb_lastUpdated = Some 7\<rparr>],
        walletDb\<lparr>balances :=
          [\<lparr>wb_id = ''g'', wb_userId = ''u1'', wb_walletId = Some ''w1'', wb_tokenSymbol = ''ETH'',
              wb_tokenAddress = None, wb_balance = Fin 0, wb_balanceUSD = None,
              wb_lastUpdated = Some 7\<rparr>], generated := 1\<rparr>)"
proof -
  have f: "fetchBalancesFor zeroWorld (sampleWallet ''w1'' ''u1'' ''ethereum'' 11)
      = Inr [\<lparr>rb_tokenSymbol = ''ETH'', rb_balance = Fin 0, rb_tokenAddress = None\<rparr>]"
    by (simp add: fetchBalancesFor_def sampleWallet_def zero_evm)
  have p: "getTokenPrices zeroWorld [''ETH''] = Inr Map.empty"
    by (simp add: getTokenPrices_def getTokenPricesBody_def zeroWorld_def ok_def
        collectPrices_def symbolMapping_def quotedPrice_def)
  have s: "priceAndSave sampleGen 7 zeroWorld ''w1'' ''u1''
        [\<lparr>rb_tokenSymbol = ''ETH'', rb_balance = Fin 0, rb_tokenAddress = None\<rparr>] walletDb
     = (Inr [\<lparr>wb_id = ''g'', wb_userId = ''u1'', wb_walletId = Some ''w1'', wb_tokenSymbol = ''ETH'',
              wb_tokenAddress = None, wb_balance = Fin 0, wb_balanceUSD = None,
              wb_lastUpdated = Some 7\<rparr>],
        walletDb\<lparr>balances :=
          [\<lparr>wb_id = ''g'', wb_userId = ''u1'', wb_walletId = Some ''w1'', wb_tokenSymbol = ''ETH'',
              wb_tokenAddress = None, wb_balance = Fin 0, wb_balanceUSD = None,
              wb_lastUpdated = Some 7\<rparr>], generated := 1\<rparr>)"
    by (simp add: priceAndSave_def p balanceData_def upsertWalletBalance_def selectExisting_def
        insertWalletBalance_def walletDb_def sampleGen_def orDefault_def Let_def decimalOf_0
        storedValues_def pgNumeric_0 walletExists_def sampleWallet_def)
  show ?thesis
    by (simp only: fetchAndUpdateWalletBalances_def walletDb_find f s option.case sum.case)
qed

lemma tokenLoop_prefix:
  "\<exists>ext. fst (tokenLoop w endpoints address network tokens acc) = acc @ ext"
proof (induction tokens arbitrary: acc)
  case Nil
  then show ?case by simp
next
  case (Cons t tokens)
  obtain symbol contractAddress where t: "t = (symbol, contractAddress)" by (cases t)
  have keep: "\<exists>ext. fst (tokenLoop w endpoints address network tokens acc) = acc @ ext"
    by (rule Cons.IH)
  have push: "\<exists>ext. fst (tokenLoop w endpoints address network tokens (acc @ [x])) = acc @ ext" for x
    using Cons.IH [of "acc @ [x]"] by auto
  show ?case
    unfolding t
    by (auto simp: keep push split: option.splits response.splits body.splits)
qed

text \<open>
  Claim C9. On an EVM network, a native balance query answered with the raw amount
  \<open>1000000000000000000\<close> yields the balance 1, and the USDT query answered with the raw
  amount \<open>5000000\<close> yields the balance 5, both exactly in binary64 arithmetic. USDT and
  USDC are converted with 6 decimals, every other token with 18.
\<close>

theorem decimal_conversion_exact:
  "(map_of API_ENDPOINTS network = Some endpoints
      \<and> nativeRequest endpoints network address = Some (apiUrl, nativeSymbol)
      \<and> explorer w apiUrl
           = Response st (Json \<lparr>status = Some ''1'', result = Some ''1000000000000000000''\<rparr>)
      \<and> ok st
    \<longrightarrow> fetchNativeBalance w address network
          = Inr (Some \<lparr>rb_tokenSymbol = nativeSymbol, rb_balance = Fin 1, rb_tokenAddress = None\<rparr>))
   \<and> (map_of TOKEN_CONTRACTS network = Some tokens
      \<and> map_of API_ENDPOINTS network = Some endpoints
      \<and> map_of tokens ''USDT'' = Some contractAddress
      \<and> tokenRequest endpoints network contractAddress address = Some tokenUrl
      \<and> explorer w tokenUrl = Response st (Json \<lparr>status = Some ''1'', result = Some ''5000000''\<rparr>)
      \<and> ok st
    \<longrightarrow> (\<exists>others. fetchTokenBalances w address network
            = Inr (\<lparr>rb_tokenSymbol = ''USDT'', rb_balance = Fin 5,
                     rb_tokenAddress = Some contractAddress\<rparr> # others)))
   \<and> tokenDecimals ''USDT'' = 6 \<and> tokenDecimals ''USDC'' = 6
   \<and> (symbol \<noteq> ''USDT'' \<and> symbol \<noteq> ''USDC'' \<longrightarrow> tokenDecimals symbol = 18)"
proof (intro conjI impI)
  assume a: "map_of API_ENDPOINTS network = Some endpoints
      \<and> nativeRequest endpoints network address = Some (apiUrl, nativeSymbol)
      \<and> explorer w apiUrl
           = Response st (Json \<lparr>status = Some ''1'', result = Some ''1000000000000000000''\<rparr>)
      \<and> ok st"
  have "jsDiv (parseInt ''1000000000000000000'') (pow10 18) = Fin 1"
    by (simp add: parseInt_1e18 pow10_18 jsDiv_def roundDouble_1)
  with a show "fetchNativeBalance w address network
          = Inr (Some \<lparr>rb_tokenSymbol = nativeSymbol, rb_balance = Fin 1, rb_tokenAddress = None\<rparr>)"
    by (simp add: fetchNativeBalance_def fetchNativeBalanceBody_def)
next
  assume a: "map_of TOKEN_CONTRACTS network = Some tokens
      \<and> map_of API_ENDPOINTS network = Some endpoints
      \<and> map_of tokens ''USDT'' = Some contractAddress
      \<and> tokenRequest endpoints network contractAddress address = Some tokenUrl
      \<and> explorer w tokenUrl = Response st (Json \<lparr>status = Some ''1'', result = Some ''5000000''\<rparr>)
      \<and> ok st"
  have q: "jsDiv (parseInt ''5000000'') (pow10 (tokenDecimals ''USDT'')) = Fin 5"
    by (simp add: tokenDecimals_def parseInt_5000000 pow10_6 jsDiv_def roundDouble_5)
  from a obtain rest where tokens: "tokens = (''USDT'', contractAddress) # rest"
    by (auto simp: TOKEN_CONTRACTS_def split: if_splits)
  let ?entry = "\<lparr>rb_tokenSymbol = ''USDT'', rb_balance = Fin 5,
                     rb_tokenAddress = Some contractAddress\<rparr>"
  have "tokenLoop w endpoints address network tokens []
      = tokenLoop w endpoints address network rest [?entry]"
    using a q by (simp add: tokens)
  moreover obtain ext where "fst (tokenLoop w endpoints address network rest [?entry]) = [?entry] @ ext"
    using tokenLoop_prefix by blast
  ultimately have "fetchTokenBalances w address network = Inr (?entry # ext)"
    using a by (simp add: fetchTokenBalances_def)
  then show "\<exists>others. fetchTokenBalances w address network = Inr (?entry # others)" by blast
qed (simp_all add: tokenDecimals_def)

lemma etherscan_requests:
  "map_of API_ENDPOINTS ''ethereum'' = Some [(''etherscan'', ''https://api.etherscan.io/api''),
                      (''moralis'', ''https://deep-index.moralis.io/api/v2'')]"
  "nativeRequest [(''etherscan'', ''https://api.etherscan.io/api''),
                      (''moralis'', ''https://deep-index.moralis.io/api/v2'')] ''ethereum'' ''0xabc''
     = Some (etherscanNativeUrl, ''ETH'')"
  "tokenRequest [(''etherscan'', ''https://api.etherscan.io/api''),
                      (''moralis'', ''https://deep-index.moralis.io/api/v2'')] ''ethereum''
      ''0xdAC17F958D2ee523a2206206994597C13D831ec7'' ''0xabc'' = Some etherscanUsdtUrl"
  by (simp_all add: API_ENDPOINTS_def nativeRequest_def tokenRequest_def endpointUrl_def
      etherscanNativeUrl_def etherscanUsdtUrl_def)

lemma ethereum_tokens:
  "map_of TOKEN_CONTRACTS ''ethereum'' =
     Some [(''USDT'', ''0xdAC17F958D2ee523a2206206994597C13D831ec7''),
           (''USDC'', ''0xA0b86a33E6417C5BB1d1e91a064B1B8a9166B1b8''),
           (''BNB'', ''0xB8c77482e45F1F44dE1745F52C74426C631bDD52'')]"
  by (simp add: TOKEN_CONTRACTS_def)

lemma richWorld_replies:
  "explorer richWorld etherscanNativeUrl = Response 200 (Json \<lparr>status = Some ''1'', result = Some ''1000000000000000000''\<rparr>)"
  "explorer richWorld etherscanUsdtUrl = Response 200 (Json \<lparr>status = Some ''1'', result = Some ''5000000''\<rparr>)"
  by (simp_all add: richWorld_def nativeReply_def usdtReply_def etherscanNativeUrl_def etherscanUsdtUrl_def)

lemma ok_200: "ok 200"
  by (simp add: ok_def)

text \<open>The address 0xabc on ethereum: one ether, five USDT, and BNB as an 18-decimal token.\<close>

theorem decimal_conversion_exact_witness:
  "explorer richWorld etherscanNativeUrl
     = Response 200 (Json \<lparr>status = Some ''1'', result = Some ''1000000000000000000''\<rparr>)
   \<and> explorer richWorld etherscanUsdtUrl
     = Response 200 (Json \<lparr>status = Some ''1'', result = Some ''5000000''\<rparr>)
   \<and> ok 200
   \<and> fetchNativeBalance richWorld ''0xabc'' ''ethereum''
       = Inr (Some \<lparr>rb_tokenSymbol = ''ETH'', rb_balance = Fin 1, rb_tokenAddress = None\<rparr>)
   \<and> (\<exists>others. fetchTokenBalances richWorld ''0xabc'' ''ethereum''
          = Inr (\<lparr>rb_tokenSymbol = ''USDT'', rb_balance = Fin 5,
                   rb_tokenAddress = Some ''0xdAC17F958D2ee523a2206206994597C13D831ec7''\<rparr> # others))
   \<and> ''BNB'' \<noteq> ''USDT'' \<and> ''BNB'' \<noteq> ''USDC'' \<and> tokenDecimals ''BNB'' = 18"
proof -
  note t = decimal_conversion_exact [where network = "''ethereum''" and address = "''0xabc''"
      and w = richWorld and st = 200 and apiUrl = etherscanNativeUrl and nativeSymbol = "''ETH''"
      and tokenUrl = etherscanUsdtUrl
      and contractAddress = "''0xdAC17F958D2ee523a2206206994597C13D831ec7''" and symbol = "''BNB''"
      and endpoints = "[(''etherscan'', ''https://api.etherscan.io/api''),
                      (''moralis'', ''https://deep-index.moralis.io/api/v2'')]"
      and tokens = "[(''USDT'', ''0xdAC17F958D2ee523a2206206994597C13D831ec7''),
           (''USDC'', ''0xA0b86a33E6417C5BB1d1e91a064B1B8a9166B1b8''),
           (''BNB'', ''0xB8c77482e45F1F44dE1745F52C74426C631bDD52'')]"]
  have u: "map_of [(''USDT'', ''0xdAC17F958D2ee523a2206206994597C13D831ec7''),
           (''USDC'', ''0xA0b86a33E6417C5BB1d1e91a064B1B8a9166B1b8''),
           (''BNB'', ''0xB8c77482e45F1F44dE1745F52C74426C631bDD52'')] ''USDT''
        = Some ''0xdAC17F958D2ee523a2206206994597C13D831ec7''" by simp
  have n: "''BNB'' \<noteq> ''USDT'' \<and> ''BNB'' \<noteq> ''USDC''" by simp
  have a: "fetchNativeBalance richWorld ''0xabc'' ''ethereum''
       = Inr (Some \<lparr>rb_tokenSymbol = ''ETH'', rb_balance = Fin 1, rb_tokenAddress = None\<rparr>)"
    using t etherscan_requests richWorld_replies ok_200 by blast
  have b: "\<exists>others. fetchTokenBalances richWorld ''0xabc'' ''ethereum''
          = Inr (\<lparr>rb_tokenSymbol = ''USDT'', rb_balance = Fin 5,
                   rb_tokenAddress = Some ''0xdAC17F958D2ee523a2206206994597C13D831ec7''\<rparr> # others)"
    using t etherscan_requests ethereum_tokens richWorld_replies ok_200 u by blast
  have c: "tokenDecimals ''BNB'' = 18" using t n by blast
  from a b c n richWorld_replies ok_200 show ?thesis by blast
qed

















section \<open>Results on the wallet bootstrapper\<close>

lemma freshIds_step:
  assumes "freshIds gen d"
  shows "gen (generated d) \<notin> set (map cw_id (wallets d))"
    and "gen (generated d) \<notin> set (map wb_id (balances d))"
  using assms by (auto simp: freshIds_def)

lemma freshIds_add_wallet:
  assumes "freshIds gen d"
  shows "freshIds gen (d\<lparr>generated := Suc (generated d), wallets := wallets d @ [c\<lparr>cw_id := gen (generated d)\<rparr>]\<rparr>)"
  using assms by (auto simp: freshIds_def inj_eq)

lemma freshIds_add_balance:
  assumes "freshIds gen d"
  shows "freshIds gen (d\<lparr>generated := Suc (generated d), balances := balances d @ [r\<lparr>wb_id := gen (generated d)\<rparr>]\<rparr>)"
  using assms by (auto simp: freshIds_def inj_eq)

lemma create_fresh:
  assumes "freshIds gen d"
  shows "createConnectedWallet gen now (newConnection now userId p) d
     = (Inr (seededWallet now userId (gen (generated d)) p),
        d\<lparr>generated := Suc (generated d),
          wallets := wallets d @ [seededWallet now userId (gen (generated d)) p]\<rparr>)"
  using freshIds_step(1) [OF assms]
  by (simp add: createConnectedWallet_def newConnection_def seededWallet_def orDefault_def Let_def)

lemma create_fresh_keeps:
  assumes "freshIds gen d"
  shows "freshIds gen (afterCreate gen now userId p d)"
proof -
  have "seededWallet now userId (gen (generated d)) p
      = (seededWallet now userId [] p)\<lparr>cw_id := gen (generated d)\<rparr>"
    by (simp add: seededWallet_def)
  with freshIds_add_wallet [OF assms, of "seededWallet now userId [] p"] show ?thesis
    by (simp add: afterCreate_def create_fresh [OF assms])
qed

lemma freshIds_bump:
  assumes "freshIds gen d"
  shows "freshIds gen (d\<lparr>generated := Suc (generated d)\<rparr>)"
  using assms by (auto simp: freshIds_def)

lemma upsert_fresh:
  assumes "freshIds gen d" and "iwb_id b = None"
  shows "freshIds gen (snd (upsertWalletBalance gen now b d))
       \<and> wallets (snd (upsertWalletBalance gen now b d)) = wallets d"
proof (cases "selectExisting b d")
  case Nil
  show ?thesis
  proof (cases "storedValues b")
    case None
    with Nil assms(2) freshIds_bump [OF assms(1)] show ?thesis
      by (simp add: upsertWalletBalance_def insertWalletBalance_def Let_def)
  next
    case (Some stored)
    let ?row = "\<lparr>wb_id = [], wb_userId = iwb_userId stored, wb_walletId = iwb_walletId stored,
        wb_tokenSymbol = iwb_tokenSymbol stored, wb_tokenAddress = iwb_tokenAddress stored,
        wb_balance = iwb_balance stored, wb_balanceUSD = orDefault (iwb_balanceUSD stored) None,
        wb_lastUpdated = orDefault (iwb_lastUpdated stored) (Some now)\<rparr>"
    from freshIds_add_balance [OF assms(1), of ?row] freshIds_bump [OF assms(1)]
      freshIds_step(2) [OF assms(1)] Nil assms(2) Some
    show ?thesis
      by (simp add: upsertWalletBalance_def insertWalletBalance_def Let_def)
  qed
next
  case (Cons e es)
  have "freshIds gen (updateById now s (wb_id e) d)" for s
    using assms(1) by (simp add: freshIds_def ids_updateById) (simp add: updateById_def)
  with Cons assms(1) show ?thesis
    by (simp add: upsertWalletBalance_def split: option.splits) (simp add: updateById_def)
qed

lemma saveBalances_fresh:
  "freshIds gen d \<Longrightarrow>
   freshIds gen (snd (saveBalances gen now userId walletId prices raw saved d))
   \<and> wallets (snd (saveBalances gen now userId walletId prices raw saved d)) = wallets d"
proof (induction raw arbitrary: saved d)
  case Nil
  then show ?case by simp
next
  case (Cons r raw)
  let ?b = "balanceData userId walletId prices r"
  have id: "iwb_id ?b = None" by (simp add: balanceData_def)
  note step = upsert_fresh [OF Cons.prems id, of now]
  obtain res d1 where u: "upsertWalletBalance gen now ?b d = (res, d1)"
    by (cases "upsertWalletBalance gen now ?b d")
  with step have d1: "freshIds gen d1" "wallets d1 = wallets d" by simp_all
  show ?case
  proof (cases res)
    case (Inl e)
    with u d1 show ?thesis by simp
  next
    case (Inr row)
    with u d1 Cons.IH [OF d1(1), of "saved @ [row]"] show ?thesis by simp
  qed
qed

lemma refresh_fresh:
  assumes "freshIds gen d"
  shows "freshIds gen (afterRefresh gen now w userId walletId d)
       \<and> wallets (afterRefresh gen now w userId walletId d) = wallets d"
proof -
  have ps: "freshIds gen (snd (priceAndSave gen now w walletId userId raw d))
       \<and> wallets (snd (priceAndSave gen now w walletId userId raw d)) = wallets d" for raw
    using saveBalances_fresh [OF assms] assms
    by (simp add: priceAndSave_def Let_def split: sum.splits)
  show ?thesis
    using assms ps
    by (simp add: afterRefresh_def fetchAndUpdateWalletBalances_def split: option.splits sum.splits)
qed

lemma owned_not_WalletNotFound:
  assumes "wl \<in> set (wallets d)" and "cw_id wl = walletId" and "cw_userId wl = userId"
  shows "fst (fetchAndUpdateWalletBalances gen now w walletId userId d) \<noteq> Inl WalletNotFound"
proof (cases "find (\<lambda>wl. cw_id wl = walletId) (getConnectedWallets d userId)")
  case None
  then have "\<not> (\<exists>x. x \<in> set (getConnectedWallets d userId) \<and> cw_id x = walletId)"
    by (simp add: find_None_iff)
  with assms show ?thesis by (auto simp: set_getConnectedWallets)
next
  case (Some wallet)
  then show ?thesis by (rule found_not_WalletNotFound)
qed

lemma initializeOne_fresh:
  assumes "freshIds gen s"
  shows "initializeOne gen now w userId s p =
           (if fetchable (pw_network p)
            then afterRefresh gen now w userId (gen (generated s)) (afterCreate gen now userId p s)
            else afterCreate gen now userId p s)"
    and "wallets (initializeOne gen now w userId s p)
           = wallets s @ [seededWallet now userId (gen (generated s)) p]"
    and "freshIds gen (initializeOne gen now w userId s p)"
    and "fst (fetchAndUpdateWalletBalances gen now w (gen (generated s)) userId
               (afterCreate gen now userId p s)) \<noteq> Inl WalletNotFound"
proof -
  note c = create_fresh [OF assms, of now userId p]
  have ac: "wallets (afterCreate gen now userId p s)
      = wallets s @ [seededWallet now userId (gen (generated s)) p]"
    by (simp add: afterCreate_def c)
  note fc = create_fresh_keeps [OF assms, of now userId p]
  note rf = refresh_fresh [OF fc, of now w userId "gen (generated s)"]
  show eq: "initializeOne gen now w userId s p =
           (if fetchable (pw_network p)
            then afterRefresh gen now w userId (gen (generated s)) (afterCreate gen now userId p s)
            else afterCreate gen now userId p s)"
    by (simp add: initializeOne_def c afterRefresh_def afterCreate_def seededWallet_def)
  show "wallets (initializeOne gen now w userId s p)
           = wallets s @ [seededWallet now userId (gen (generated s)) p]"
    using rf ac by (simp add: eq)
  show "freshIds gen (initializeOne gen now w userId s p)"
    using rf fc by (simp add: eq)
  have "seededWallet now userId (gen (generated s)) p \<in> set (wallets (afterCreate gen now userId p s))"
    by (simp add: ac)
  then show "fst (fetchAndUpdateWalletBalances gen now w (gen (generated s)) userId
               (afterCreate gen now userId p s)) \<noteq> Inl WalletNotFound"
    by (rule owned_not_WalletNotFound) (simp_all add: seededWallet_def)
qed

lemma predefined_networks:
  "pw_network ethWallet = ''ethereum''" "pw_network btcWallet = ''bitcoin''"
  "pw_network bnbWallet = ''bsc''" "pw_network usdtTronWallet = ''tron''"
  by (simp_all add: ethWallet_def btcWallet_def bnbWallet_def usdtTronWallet_def)

lemma predefined_fetchable:
  "fetchable (pw_network ethWallet)" "\<not> fetchable (pw_network btcWallet)"
  "fetchable (pw_network bnbWallet)" "fetchable (pw_network usdtTronWallet)"
  by (simp_all add: predefined_networks fetchable_def)

text \<open>
  Claim C6. \<open>initializeWalletWithAddresses\<close> leaves the database as it is when the user
  has a connected wallet, whichever it is. When the user has none, and the ids the
  database generates are fresh, it runs in this order: create the ethereum wallet and
  refresh it, create the bitcoin wallet, create the bsc wallet and refresh it, create the
  tron wallet and refresh it; each refresh finds the wallet just created, and the wallet
  table grows by exactly these four rows. So wallets are created if and only if the user
  had none.
\<close>

theorem bootstrap_only_for_new_users:
  "(getConnectedWallets d userId \<noteq> [] \<longrightarrow> initializeWalletWithAddresses gen now w userId d = d)
   \<and> (getConnectedWallets d userId = [] \<and> freshIds gen d \<longrightarrow>
        (\<exists>i1 i2 i3 i4 c1 r1 c2 c3 r3 c4 r4.
           c1 = afterCreate gen now userId ethWallet d
         \<and> r1 = afterRefresh gen now w userId i1 c1
         \<and> c2 = afterCreate gen now userId btcWallet r1
         \<and> c3 = afterCreate gen now userId bnbWallet c2
         \<and> r3 = afterRefresh gen now w userId i3 c3
         \<and> c4 = afterCreate gen now userId usdtTronWallet r3
         \<and> r4 = afterRefresh gen now w userId i4 c4
         \<and> initializeWalletWithAddresses gen now w userId d = r4
         \<and> wallets r4 = wallets d @
              [seededWallet now userId i1 ethWallet, seededWallet now userId i2 btcWallet,
               seededWallet now userId i3 bnbWallet, seededWallet now userId i4 usdtTronWallet]
         \<and> fst (fetchAndUpdateWalletBalances gen now w i1 userId c1) \<noteq> Inl WalletNotFound
         \<and> fst (fetchAndUpdateWalletBalances gen now w i3 userId c3) \<noteq> Inl WalletNotFound
         \<and> fst (fetchAndUpdateWalletBalances gen now w i4 userId c4) \<noteq> Inl WalletNotFound))
   \<and> (freshIds gen d \<longrightarrow>
        (wallets (initializeWalletWithAddresses gen now w userId d) \<noteq> wallets d
           \<longleftrightarrow> getConnectedWallets d userId = []))
   \<and> map pw_network predefinedWallets = [''ethereum'', ''bitcoin'', ''bsc'', ''tron'']"
proof -
  have keep: "initializeWalletWithAddresses gen now w userId d = d"
    if "getConnectedWallets d userId \<noteq> []"
    using that by (simp add: initializeWalletWithAddresses_def)
  have seed: "\<exists>i1 i2 i3 i4 c1 r1 c2 c3 r3 c4 r4.
           c1 = afterCreate gen now userId ethWallet d
         \<and> r1 = afterRefresh gen now w userId i1 c1
         \<and> c2 = afterCreate gen now userId btcWallet r1
         \<and> c3 = afterCreate gen now userId bnbWallet c2
         \<and> r3 = afterRefresh gen now w userId i3 c3
         \<and> c4 = afterCreate gen now userId usdtTronWallet r3
         \<and> r4 = afterRefresh gen now w userId i4 c4
         \<and> initializeWalletWithAddresses gen now w userId d = r4
         \<and> wallets r4 = wallets d @
              [seededWallet now userId i1 ethWallet, seededWallet now userId i2 btcWallet,
               seededWallet now userId i3 bnbWallet, seededWallet now userId i4 usdtTronWallet]
         \<and> fst (fetchAndUpdateWalletBalances gen now w i1 userId c1) \<noteq> Inl WalletNotFound
         \<and> fst (fetchAndUpdateWalletBalances gen now w i3 userId c3) \<noteq> Inl WalletNotFound
         \<and> fst (fetchAndUpdateWalletBalances gen now w i4 userId c4) \<noteq> Inl WalletNotFound"
    if empty: "getConnectedWallets d userId = []" and fresh: "freshIds gen d"
  proof -
    define s1 where "s1 = initializeOne gen now w userId d ethWallet"
    define s2 where "s2 = initializeOne gen now w userId s1 btcWallet"
    define s3 where "s3 = initializeOne gen now w userId s2 bnbWallet"
    define s4 where "s4 = initializeOne gen now w userId s3 usdtTronWallet"
    note o1 = initializeOne_fresh [OF fresh, of now w userId ethWallet, folded s1_def]
    note o2 = initializeOne_fresh [OF o1(3), of now w userId btcWallet, folded s2_def]
    note o3 = initializeOne_fresh [OF o2(3), of now w userId bnbWallet, folded s3_def]
    note o4 = initializeOne_fresh [OF o3(3), of now w userId usdtTronWallet, folded s4_def]
    have run: "initializeWalletWithAddresses gen now w userId d = s4"
      using empty
      by (simp add: initializeWalletWithAddresses_def predefinedWallets_def s1_def s2_def s3_def s4_def)
    define c1 where "c1 = afterCreate gen now userId ethWallet d"
    define c3 where "c3 = afterCreate gen now userId bnbWallet s2"
    define c4 where "c4 = afterCreate gen now userId usdtTronWallet s3"
    have e1: "s1 = afterRefresh gen now w userId (gen (generated d)) c1"
      using o1(1) by (simp add: predefined_fetchable c1_def)
    have e2: "s2 = afterCreate gen now userId btcWallet s1"
      using o2(1) by (simp add: predefined_fetchable)
    have e3: "s3 = afterRefresh gen now w userId (gen (generated s2)) c3"
      using o3(1) by (simp add: predefined_fetchable c3_def)
    have e4: "s4 = afterRefresh gen now w userId (gen (generated s3)) c4"
      using o4(1) by (simp add: predefined_fetchable c4_def)
    have ws: "wallets s4 = wallets d @
        [seededWallet now userId (gen (generated d)) ethWallet,
         seededWallet now userId (gen (generated s1)) btcWallet,
         seededWallet now userId (gen (generated s2)) bnbWallet,
         seededWallet now userId (gen (generated s3)) usdtTronWallet]"
      by (simp add: o4(2) o3(2) o2(2) o1(2))
    note n1 = o1(4) [folded c1_def] and n3 = o3(4) [folded c3_def] and n4 = o4(4) [folded c4_def]
    from c1_def e1 e2 c3_def e3 c4_def e4 run ws n1 n3 n4 show ?thesis by blast
  qed
  have iff: "wallets (initializeWalletWithAddresses gen now w userId d) \<noteq> wallets d
           \<longleftrightarrow> getConnectedWallets d userId = []" if fresh: "freshIds gen d"
  proof (cases "getConnectedWallets d userId = []")
    case True
    from seed [OF True fresh] obtain x where
      "wallets (initializeWalletWithAddresses gen now w userId d) = wallets d @ x" "x \<noteq> []"
      by auto
    with True show ?thesis by simp
  next
    case False
    with keep [OF False] show ?thesis by simp
  qed
  have nets: "map pw_network predefinedWallets = [''ethereum'', ''bitcoin'', ''bsc'', ''tron'']"
    by (simp add: predefinedWallets_def predefined_networks)
  from keep seed iff nets show ?thesis by blast
qed

lemma sampleGen_inj: "inj sampleGen"
proof (rule injI)
  fix x y assume "sampleGen x = sampleGen y"
  then have "length (sampleGen x) = length (sampleGen y)" by simp
  then show "x = y" by (simp add: sampleGen_def)
qed

lemma walletDb_fresh: "freshIds sampleGen walletDb"
  by (simp add: freshIds_def sampleGen_inj) (simp add: sampleGen_def walletDb_def sampleWallet_def)

lemma walletDb_u3: "getConnectedWallets walletDb ''u3'' = []"
  by (simp add: getConnectedWallets_def walletDb_def sampleWallet_def orderByLastConnectedDesc_def)

lemma walletDb_u1: "getConnectedWallets walletDb ''u1'' \<noteq> []"
  by (simp add: walletDb_eval)

text \<open>User u1 has wallets and nothing changes; user u3 has none and gets the four.\<close>

theorem bootstrap_only_for_new_users_witness:
  "getConnectedWallets walletDb ''u1'' \<noteq> []
   \<and> initializeWalletWithAddresses sampleGen 7 deadWorld ''u1'' walletDb = walletDb
   \<and> getConnectedWallets walletDb ''u3'' = []
   \<and> freshIds sampleGen walletDb
   \<and> length (wallets (initializeWalletWithAddresses sampleGen 7 deadWorld ''u3'' walletDb)) = 7
   \<and> map cw_network (wallets (initializeWalletWithAddresses sampleGen 7 deadWorld ''u3'' walletDb))
       = [''ethereum'', ''tron'', ''solana'', ''ethereum'', ''bitcoin'', ''bsc'', ''tron'']
   \<and> map cw_userId (wallets (initializeWalletWithAddresses sampleGen 7 deadWorld ''u3'' walletDb))
       = [''u1'', ''u2'', ''u1'', ''u3'', ''u3'', ''u3'', ''u3'']
   \<and> wallets (initializeWalletWithAddresses sampleGen 7 deadWorld ''u3'' walletDb) \<noteq> wallets walletDb"
proof -
  note t1 = bootstrap_only_for_new_users [where d = walletDb and userId = "''u1''"
      and gen = sampleGen and now = 7 and w = deadWorld]
  note t3 = bootstrap_only_for_new_users [where d = walletDb and userId = "''u3''"
      and gen = sampleGen and now = 7 and w = deadWorld]
  have a: "initializeWalletWithAddresses sampleGen 7 deadWorld ''u1'' walletDb = walletDb"
    using t1 walletDb_u1 by blast
  from t3 walletDb_u3 walletDb_fresh obtain i1 i2 i3 i4 where
    ws: "wallets (initializeWalletWithAddresses sampleGen 7 deadWorld ''u3'' walletDb)
      = wallets walletDb @
          [seededWallet 7 ''u3'' i1 ethWallet, seededWallet 7 ''u3'' i2 btcWallet,
           seededWallet 7 ''u3'' i3 bnbWallet, seededWallet 7 ''u3'' i4 usdtTronWallet]"
    by auto
  have b: "length (wallets (initializeWalletWithAddresses sampleGen 7 deadWorld ''u3'' walletDb)) = 7"
    by (simp add: ws) (simp add: walletDb_def)
  have c: "map cw_network (wallets (initializeWalletWithAddresses sampleGen 7 deadWorld ''u3'' walletDb))
       = [''ethereum'', ''tron'', ''solana'', ''ethereum'', ''bitcoin'', ''bsc'', ''tron'']"
    by (simp add: ws seededWallet_def predefined_networks) (simp add: walletDb_def sampleWallet_def)
  have d: "map cw_userId (wallets (initializeWalletWithAddresses sampleGen 7 deadWorld ''u3'' walletDb))
       = [''u1'', ''u2'', ''u1'', ''u3'', ''u3'', ''u3'', ''u3'']"
    by (simp add: ws seededWallet_def) (simp add: walletDb_def sampleWallet_def)
  have e: "wallets (initializeWalletWithAddresses sampleGen 7 deadWorld ''u3'' walletDb) \<noteq> wallets walletDb"
    using t3 walletDb_u3 walletDb_fresh by blast
  from a b c d e walletDb_u1 walletDb_u3 walletDb_fresh show ?thesis by blast
qed

end
